theory Spec2Isabelle
  imports Main "HOL-Library.Word"
begin

section \<open>The research interface: command schema\<close>

text \<open>
  A shallow embedding of the command header of the research interface (namespace
  \<open>research_interface\<close>) and of \<open>research_interface/robot/errors.h\<close>.
  Enumerations are datatypes with the enumerator values C++ assigns (the first enumerator
  is 0, each following one is the previous plus 1), structs are records, the class
  templates \<open>RequestBase\<close>, \<open>ResponseBase\<close> and \<open>CommandBase\<close> are functions of
  the command they are instantiated with.
\<close>

subsection \<open>Scalars and constants\<close>

type_synonym Version = "16 word"

text \<open>A \<open>double\<close> is kept as its 64-bit pattern; no arithmetic is done on it here.\<close>

type_synonym double = "64 word"

type_synonym byte = "8 word"

definition kVersion :: Version where
  "kVersion = 1"

definition kCommandPort :: "16 word" where
  "kCommandPort = 1337"

subsection \<open>\<open>enum class Function : uint32_t\<close>\<close>

datatype Function =
    kConnect
  | kStartMotionGenerator
  | kStopMotionGenerator
  | kStartController
  | kStopController
  | kGetCartesianLimit
  | kSetControllerMode
  | kSetCollisionBehavior
  | kSetJointImpedance
  | kSetCartesianImpedance
  | kSetGuidingMode
  | kSetEEToK
  | kSetFToEE
  | kSetLoad
  | kSetTimeScalingFactor
  | kAutomaticErrorRecovery
  | kResetExternalTorqueAndForceMax

text \<open>\<open>static_cast<uint32_t>\<close> of an enumerator of \<open>Function\<close>.\<close>

fun Function_value :: "Function \<Rightarrow> 32 word" where
  "Function_value kConnect = 0"
| "Function_value kStartMotionGenerator = 1"
| "Function_value kStopMotionGenerator = 2"
| "Function_value kStartController = 3"
| "Function_value kStopController = 4"
| "Function_value kGetCartesianLimit = 5"
| "Function_value kSetControllerMode = 6"
| "Function_value kSetCollisionBehavior = 7"
| "Function_value kSetJointImpedance = 8"
| "Function_value kSetCartesianImpedance = 9"
| "Function_value kSetGuidingMode = 10"
| "Function_value kSetEEToK = 11"
| "Function_value kSetFToEE = 12"
| "Function_value kSetLoad = 13"
| "Function_value kSetTimeScalingFactor = 14"
| "Function_value kAutomaticErrorRecovery = 15"
| "Function_value kResetExternalTorqueAndForceMax = 16"

text \<open>The enumerators in declaration order.\<close>

definition Function_enumerators :: "Function list" where
  "Function_enumerators =
    [kConnect, kStartMotionGenerator, kStopMotionGenerator, kStartController,
     kStopController, kGetCartesianLimit, kSetControllerMode, kSetCollisionBehavior,
     kSetJointImpedance, kSetCartesianImpedance, kSetGuidingMode, kSetEEToK, kSetFToEE,
     kSetLoad, kSetTimeScalingFactor, kAutomaticErrorRecovery,
     kResetExternalTorqueAndForceMax]"

subsection \<open>The command structs\<close>

text \<open>
  One constructor per struct that derives from \<open>CommandBase<T, F>\<close>; a value of this type
  stands for the template argument \<open>T\<close>.
\<close>

datatype Command =
    Connect
  | StartMotionGenerator
  | StopMotionGenerator
  | StartController
  | StopController
  | GetCartesianLimit
  | SetControllerMode
  | SetCollisionBehavior
  | SetJointImpedance
  | SetCartesianImpedance
  | SetGuidingMode
  | SetEEToK
  | SetFToEE
  | SetLoad
  | SetTimeScalingFactor
  | AutomaticErrorRecovery
  | ResetExternalTorqueAndForceMax

definition Command_structs :: "Command list" where
  "Command_structs =
    [Connect, StartMotionGenerator, StopMotionGenerator, StartController, StopController,
     GetCartesianLimit, SetControllerMode, SetCollisionBehavior, SetJointImpedance,
     SetCartesianImpedance, SetGuidingMode, SetEEToK, SetFToEE, SetLoad,
     SetTimeScalingFactor, AutomaticErrorRecovery, ResetExternalTorqueAndForceMax]"

text \<open>\<open>CommandBase<T, F>::kFunction = F\<close>, read off each struct's base clause.\<close>

fun kFunction :: "Command \<Rightarrow> Function" where
  "kFunction Connect = kConnect"
| "kFunction StartMotionGenerator = kStartMotionGenerator"
| "kFunction StopMotionGenerator = kStopMotionGenerator"
| "kFunction StartController = kStartController"
| "kFunction StopController = kStopController"
| "kFunction GetCartesianLimit = kGetCartesianLimit"
| "kFunction SetControllerMode = kSetControllerMode"
| "kFunction SetCollisionBehavior = kSetCollisionBehavior"
| "kFunction SetJointImpedance = kSetJointImpedance"
| "kFunction SetCartesianImpedance = kSetCartesianImpedance"
| "kFunction SetGuidingMode = kSetGuidingMode"
| "kFunction SetEEToK = kSetEEToK"
| "kFunction SetFToEE = kSetFToEE"
| "kFunction SetLoad = kSetLoad"
| "kFunction SetTimeScalingFactor = kSetTimeScalingFactor"
| "kFunction AutomaticErrorRecovery = kAutomaticErrorRecovery"
| "kFunction ResetExternalTorqueAndForceMax = kResetExternalTorqueAndForceMax"

subsection \<open>Status enumerations\<close>

text \<open>
  \<open>CommandBase<T, F>\<close> declares \<open>enum class Status : uint32_t { kSuccess }\<close>; the structs
  \<open>Connect\<close>, \<open>StartMotionGenerator\<close> and \<open>GetCartesianLimit\<close> declare a \<open>Status\<close> of
  their own, which hides the inherited one. Every other struct has the inherited one.
  The datatypes below hold the declared enumerators. An object of an \<open>enum class\<close> over
  \<open>uint32_t\<close> can also hold, by a cast, a 32-bit value that no enumerator names; such
  values are not in this model, and what is stated below of a status enumeration is
  stated of its declared enumerators.
\<close>

datatype CommandBase_Status = kSuccess

datatype Connect_Status = kSuccess | kIncompatibleLibraryVersion

datatype StartMotionGenerator_Status = kSuccess | kInvalidType | kFinished | kAborted | kRejected

datatype GetCartesianLimit_Status = kSuccess | kReceived

fun CommandBase_Status_value :: "CommandBase_Status \<Rightarrow> 32 word" where
  "CommandBase_Status_value CommandBase_Status.kSuccess = 0"

fun Connect_Status_value :: "Connect_Status \<Rightarrow> 32 word" where
  "Connect_Status_value Connect_Status.kSuccess = 0"
| "Connect_Status_value kIncompatibleLibraryVersion = 1"

fun StartMotionGenerator_Status_value :: "StartMotionGenerator_Status \<Rightarrow> 32 word" where
  "StartMotionGenerator_Status_value StartMotionGenerator_Status.kSuccess = 0"
| "StartMotionGenerator_Status_value kInvalidType = 1"
| "StartMotionGenerator_Status_value kFinished = 2"
| "StartMotionGenerator_Status_value kAborted = 3"
| "StartMotionGenerator_Status_value kRejected = 4"

fun GetCartesianLimit_Status_value :: "GetCartesianLimit_Status \<Rightarrow> 32 word" where
  "GetCartesianLimit_Status_value GetCartesianLimit_Status.kSuccess = 0"
| "GetCartesianLimit_Status_value kReceived = 1"

text \<open>A value of \<open>typename T::Status\<close>, for whichever command \<open>T\<close>.\<close>

datatype Status =
    Status_CommandBase CommandBase_Status
  | Status_Connect Connect_Status
  | Status_StartMotionGenerator StartMotionGenerator_Status
  | Status_GetCartesianLimit GetCartesianLimit_Status

text \<open>\<open>static_cast<uint32_t>\<close> of a status, as in the assertion of \<open>ResponseBase\<close>.\<close>

fun static_cast_uint32 :: "Status \<Rightarrow> 32 word" where
  "static_cast_uint32 (Status_CommandBase s) = CommandBase_Status_value s"
| "static_cast_uint32 (Status_Connect s) = Connect_Status_value s"
| "static_cast_uint32 (Status_StartMotionGenerator s) = StartMotionGenerator_Status_value s"
| "static_cast_uint32 (Status_GetCartesianLimit s) = GetCartesianLimit_Status_value s"

text \<open>The enumerators of \<open>T::Status\<close> in declaration order, by C++ name lookup in \<open>T\<close>.\<close>

fun Status_enumerators :: "Command \<Rightarrow> Status list" where
  "Status_enumerators Connect =
     [Status_Connect Connect_Status.kSuccess, Status_Connect kIncompatibleLibraryVersion]"
| "Status_enumerators StartMotionGenerator =
     [Status_StartMotionGenerator StartMotionGenerator_Status.kSuccess,
      Status_StartMotionGenerator kInvalidType,
      Status_StartMotionGenerator kFinished,
      Status_StartMotionGenerator kAborted,
      Status_StartMotionGenerator kRejected]"
| "Status_enumerators GetCartesianLimit =
     [Status_GetCartesianLimit GetCartesianLimit_Status.kSuccess,
      Status_GetCartesianLimit kReceived]"
| "Status_enumerators T = [Status_CommandBase CommandBase_Status.kSuccess]"

text \<open>\<open>T::Status::kSuccess\<close>.\<close>

fun Status_kSuccess :: "Command \<Rightarrow> Status" where
  "Status_kSuccess Connect = Status_Connect Connect_Status.kSuccess"
| "Status_kSuccess StartMotionGenerator =
     Status_StartMotionGenerator StartMotionGenerator_Status.kSuccess"
| "Status_kSuccess GetCartesianLimit =
     Status_GetCartesianLimit GetCartesianLimit_Status.kSuccess"
| "Status_kSuccess T = Status_CommandBase CommandBase_Status.kSuccess"

text \<open>Whether a status value has the type \<open>T::Status\<close>.\<close>

fun is_Status_of :: "Command \<Rightarrow> Status \<Rightarrow> bool" where
  "is_Status_of Connect s = (case s of Status_Connect _ \<Rightarrow> True | _ \<Rightarrow> False)"
| "is_Status_of StartMotionGenerator s =
     (case s of Status_StartMotionGenerator _ \<Rightarrow> True | _ \<Rightarrow> False)"
| "is_Status_of GetCartesianLimit s =
     (case s of Status_GetCartesianLimit _ \<Rightarrow> True | _ \<Rightarrow> False)"
| "is_Status_of T s = (case s of Status_CommandBase _ \<Rightarrow> True | _ \<Rightarrow> False)"

text \<open>
  The third compile-time assertion of \<open>ResponseBase<T>\<close>:
  \<open>static_cast<uint32_t>(decltype(status)::kSuccess) == 0\<close>. The first two (the status
  is an enumeration, with underlying type \<open>uint32_t\<close>) are the types of
  \<open>static_cast_uint32\<close>.
\<close>

definition ResponseBase_static_assert :: "Command \<Rightarrow> bool" where
  "ResponseBase_static_assert T = (static_cast_uint32 (Status_kSuccess T) = 0)"

subsection \<open>Mode enumerations\<close>

datatype MotionGeneratorMode =
  kJointPosition | kJointVelocity | kCartesianPosition | kCartesianVelocity

datatype ControllerMode =
  kMotorPD | kJointPosition | kJointImpedance | kCartesianImpedance

fun MotionGeneratorMode_value :: "MotionGeneratorMode \<Rightarrow> 32 word" where
  "MotionGeneratorMode_value MotionGeneratorMode.kJointPosition = 0"
| "MotionGeneratorMode_value kJointVelocity = 1"
| "MotionGeneratorMode_value kCartesianPosition = 2"
| "MotionGeneratorMode_value kCartesianVelocity = 3"

fun ControllerMode_value :: "ControllerMode \<Rightarrow> 32 word" where
  "ControllerMode_value kMotorPD = 0"
| "ControllerMode_value ControllerMode.kJointPosition = 1"
| "ControllerMode_value kJointImpedance = 2"
| "ControllerMode_value kCartesianImpedance = 3"

subsection \<open>\<open>RequestBase<T>\<close> and \<open>ResponseBase<T>\<close>\<close>

record RequestBase =
  function' :: Function

text \<open>\<open>RequestBase() : function(T::kFunction) {}\<close>\<close>

definition RequestBase :: "Command \<Rightarrow> RequestBase" where
  "RequestBase T = \<lparr>function' = kFunction T\<rparr>"

record 's ResponseBase =
  function' :: Function
  status :: 's

text \<open>\<open>ResponseBase(typename T::Status status) : function(T::kFunction), status(status) {}\<close>\<close>

definition ResponseBase :: "Command \<Rightarrow> 's \<Rightarrow> 's ResponseBase" where
  "ResponseBase T s = \<lparr>function' = kFunction T, status = s\<rparr>"

subsection \<open>The request structs\<close>

text \<open>
  A \<open>std::array<double, N>\<close> is a list of doubles; a value of the struct is well formed
  when the list has \<open>N\<close> elements. Each struct below extends the \<open>RequestBase<X>\<close> named in
  its base clause, and the function that bears its name is its constructor.
\<close>

record Connect_Request = RequestBase +
  version :: Version
  udp_port :: "16 word"

definition Connect_Request :: "16 word \<Rightarrow> Connect_Request" where
  "Connect_Request p =
     \<lparr>RequestBase.function' = RequestBase.function' (RequestBase Connect),
      version = kVersion, udp_port = p\<rparr>"

record StartMotionGenerator_Request = RequestBase +
  mode :: MotionGeneratorMode

definition StartMotionGenerator_Request :: "MotionGeneratorMode \<Rightarrow> StartMotionGenerator_Request" where
  "StartMotionGenerator_Request m =
     \<lparr>RequestBase.function' = RequestBase.function' (RequestBase StartMotionGenerator),
      mode = m\<rparr>"

record SetControllerMode_Request = RequestBase +
  mode :: ControllerMode

definition SetControllerMode_Request :: "ControllerMode \<Rightarrow> SetControllerMode_Request" where
  "SetControllerMode_Request m =
     \<lparr>RequestBase.function' = RequestBase.function' (RequestBase SetControllerMode),
      mode = m\<rparr>"

record SetCollisionBehavior_Request = RequestBase +
  torque_thresholds_acceleration :: "double list"
  torque_thresholds_nominal :: "double list"
  force_thresholds_acceleration :: "double list"
  force_thresholds_nominal :: "double list"

definition SetCollisionBehavior_Request ::
  "double list \<Rightarrow> double list \<Rightarrow> double list \<Rightarrow> double list \<Rightarrow> SetCollisionBehavior_Request" where
  "SetCollisionBehavior_Request ta tn fa fn =
     \<lparr>RequestBase.function' = RequestBase.function' (RequestBase SetCollisionBehavior),
      torque_thresholds_acceleration = ta, torque_thresholds_nominal = tn,
      force_thresholds_acceleration = fa, force_thresholds_nominal = fn\<rparr>"

record SetJointImpedance_Request = RequestBase +
  K_theta :: "double list"

definition SetJointImpedance_Request :: "double list \<Rightarrow> SetJointImpedance_Request" where
  "SetJointImpedance_Request k =
     \<lparr>RequestBase.function' = RequestBase.function' (RequestBase SetJointImpedance),
      K_theta = k\<rparr>"

record SetCartesianImpedance_Request = RequestBase +
  K_x :: "double list"

definition SetCartesianImpedance_Request :: "double list \<Rightarrow> SetCartesianImpedance_Request" where
  "SetCartesianImpedance_Request k =
     \<lparr>RequestBase.function' = RequestBase.function' (RequestBase SetCartesianImpedance),
      K_x = k\<rparr>"

record SetGuidingMode_Request = RequestBase +
  guiding_mode :: "bool list"
  nullspace :: bool

definition SetGuidingMode_Request :: "bool list \<Rightarrow> bool \<Rightarrow> SetGuidingMode_Request" where
  "SetGuidingMode_Request g n =
     \<lparr>RequestBase.function' = RequestBase.function' (RequestBase SetGuidingMode),
      guiding_mode = g, nullspace = n\<rparr>"

record SetEEToK_Request = RequestBase +
  EE_T_K :: "double list"

definition SetEEToK_Request :: "double list \<Rightarrow> SetEEToK_Request" where
  "SetEEToK_Request t =
     \<lparr>RequestBase.function' = RequestBase.function' (RequestBase SetEEToK), EE_T_K = t\<rparr>"

record SetFToEE_Request = RequestBase +
  F_T_EE :: "double list"

definition SetFToEE_Request :: "double list \<Rightarrow> SetFToEE_Request" where
  "SetFToEE_Request t =
     \<lparr>RequestBase.function' = RequestBase.function' (RequestBase SetFToEE), F_T_EE = t\<rparr>"

record SetLoad_Request = RequestBase +
  m_load :: double
  F_x_Cload :: "double list"
  I_load :: "double list"

definition SetLoad_Request :: "double \<Rightarrow> double list \<Rightarrow> double list \<Rightarrow> SetLoad_Request" where
  "SetLoad_Request m c i =
     \<lparr>RequestBase.function' = RequestBase.function' (RequestBase SetLoad),
      m_load = m, F_x_Cload = c, I_load = i\<rparr>"

text \<open>
  \<open>struct Request : public RequestBase<SetLoad>\<close> inside \<open>SetTimeScalingFactor\<close>: the base
  is instantiated with \<open>SetLoad\<close>, as the source has it.
\<close>

record SetTimeScalingFactor_Request = RequestBase +
  time_scaling_factor :: double

definition SetTimeScalingFactor_Request :: "double \<Rightarrow> SetTimeScalingFactor_Request" where
  "SetTimeScalingFactor_Request t =
     \<lparr>RequestBase.function' = RequestBase.function' (RequestBase SetLoad),
      time_scaling_factor = t\<rparr>"

text \<open>
  A value of \<open>T::Request\<close>, for whichever command \<open>T\<close>. A struct that declares no
  \<open>Request\<close> has \<open>using Request = RequestBase<T>\<close> from \<open>CommandBase\<close>.
\<close>

datatype Request =
    Request_Connect Connect_Request
  | Request_StartMotionGenerator StartMotionGenerator_Request
  | Request_StopMotionGenerator RequestBase
  | Request_StartController RequestBase
  | Request_StopController RequestBase
  | Request_GetCartesianLimit RequestBase
  | Request_SetControllerMode SetControllerMode_Request
  | Request_SetCollisionBehavior SetCollisionBehavior_Request
  | Request_SetJointImpedance SetJointImpedance_Request
  | Request_SetCartesianImpedance SetCartesianImpedance_Request
  | Request_SetGuidingMode SetGuidingMode_Request
  | Request_SetEEToK SetEEToK_Request
  | Request_SetFToEE SetFToEE_Request
  | Request_SetLoad SetLoad_Request
  | Request_SetTimeScalingFactor SetTimeScalingFactor_Request
  | Request_AutomaticErrorRecovery RequestBase
  | Request_ResetExternalTorqueAndForceMax RequestBase

text \<open>The command \<open>T\<close> whose \<open>T::Request\<close> a value is.\<close>

fun Request_command :: "Request \<Rightarrow> Command" where
  "Request_command (Request_Connect r) = Connect"
| "Request_command (Request_StartMotionGenerator r) = StartMotionGenerator"
| "Request_command (Request_StopMotionGenerator r) = StopMotionGenerator"
| "Request_command (Request_StartController r) = StartController"
| "Request_command (Request_StopController r) = StopController"
| "Request_command (Request_GetCartesianLimit r) = GetCartesianLimit"
| "Request_command (Request_SetControllerMode r) = SetControllerMode"
| "Request_command (Request_SetCollisionBehavior r) = SetCollisionBehavior"
| "Request_command (Request_SetJointImpedance r) = SetJointImpedance"
| "Request_command (Request_SetCartesianImpedance r) = SetCartesianImpedance"
| "Request_command (Request_SetGuidingMode r) = SetGuidingMode"
| "Request_command (Request_SetEEToK r) = SetEEToK"
| "Request_command (Request_SetFToEE r) = SetFToEE"
| "Request_command (Request_SetLoad r) = SetLoad"
| "Request_command (Request_SetTimeScalingFactor r) = SetTimeScalingFactor"
| "Request_command (Request_AutomaticErrorRecovery r) = AutomaticErrorRecovery"
| "Request_command (Request_ResetExternalTorqueAndForceMax r) = ResetExternalTorqueAndForceMax"

text \<open>The member \<open>function\<close> of a request.\<close>

fun Request_function :: "Request \<Rightarrow> Function" where
  "Request_function (Request_Connect r) = RequestBase.function' r"
| "Request_function (Request_StartMotionGenerator r) = RequestBase.function' r"
| "Request_function (Request_StopMotionGenerator r) = RequestBase.function' r"
| "Request_function (Request_StartController r) = RequestBase.function' r"
| "Request_function (Request_StopController r) = RequestBase.function' r"
| "Request_function (Request_GetCartesianLimit r) = RequestBase.function' r"
| "Request_function (Request_SetControllerMode r) = RequestBase.function' r"
| "Request_function (Request_SetCollisionBehavior r) = RequestBase.function' r"
| "Request_function (Request_SetJointImpedance r) = RequestBase.function' r"
| "Request_function (Request_SetCartesianImpedance r) = RequestBase.function' r"
| "Request_function (Request_SetGuidingMode r) = RequestBase.function' r"
| "Request_function (Request_SetEEToK r) = RequestBase.function' r"
| "Request_function (Request_SetFToEE r) = RequestBase.function' r"
| "Request_function (Request_SetLoad r) = RequestBase.function' r"
| "Request_function (Request_SetTimeScalingFactor r) = RequestBase.function' r"
| "Request_function (Request_AutomaticErrorRecovery r) = RequestBase.function' r"
| "Request_function (Request_ResetExternalTorqueAndForceMax r) = RequestBase.function' r"

text \<open>
  A request is constructed when it is what its struct's constructor returns for the
  request's own payload, with arrays of the declared sizes.
\<close>

fun Request_constructed :: "Request \<Rightarrow> bool" where
  "Request_constructed (Request_Connect r) = (r = Connect_Request (udp_port r))"
| "Request_constructed (Request_StartMotionGenerator r) =
     (r = StartMotionGenerator_Request (StartMotionGenerator_Request.mode r))"
| "Request_constructed (Request_StopMotionGenerator r) = (r = RequestBase StopMotionGenerator)"
| "Request_constructed (Request_StartController r) = (r = RequestBase StartController)"
| "Request_constructed (Request_StopController r) = (r = RequestBase StopController)"
| "Request_constructed (Request_GetCartesianLimit r) = (r = RequestBase GetCartesianLimit)"
| "Request_constructed (Request_SetControllerMode r) =
     (r = SetControllerMode_Request (SetControllerMode_Request.mode r))"
| "Request_constructed (Request_SetCollisionBehavior r) =
     (r = SetCollisionBehavior_Request (torque_thresholds_acceleration r)
            (torque_thresholds_nominal r) (force_thresholds_acceleration r)
            (force_thresholds_nominal r)
      \<and> length (torque_thresholds_acceleration r) = 14
      \<and> length (torque_thresholds_nominal r) = 14
      \<and> length (force_thresholds_acceleration r) = 12
      \<and> length (force_thresholds_nominal r) = 12)"
| "Request_constructed (Request_SetJointImpedance r) =
     (r = SetJointImpedance_Request (K_theta r) \<and> length (K_theta r) = 7)"
| "Request_constructed (Request_SetCartesianImpedance r) =
     (r = SetCartesianImpedance_Request (K_x r) \<and> length (K_x r) = 6)"
| "Request_constructed (Request_SetGuidingMode r) =
     (r = SetGuidingMode_Request (guiding_mode r) (nullspace r) \<and> length (guiding_mode r) = 6)"
| "Request_constructed (Request_SetEEToK r) =
     (r = SetEEToK_Request (EE_T_K r) \<and> length (EE_T_K r) = 16)"
| "Request_constructed (Request_SetFToEE r) =
     (r = SetFToEE_Request (F_T_EE r) \<and> length (F_T_EE r) = 16)"
| "Request_constructed (Request_SetLoad r) =
     (r = SetLoad_Request (m_load r) (F_x_Cload r) (I_load r)
      \<and> length (F_x_Cload r) = 3 \<and> length (I_load r) = 9)"
| "Request_constructed (Request_SetTimeScalingFactor r) =
     (r = SetTimeScalingFactor_Request (time_scaling_factor r))"
| "Request_constructed (Request_AutomaticErrorRecovery r) =
     (r = RequestBase AutomaticErrorRecovery)"
| "Request_constructed (Request_ResetExternalTorqueAndForceMax r) =
     (r = RequestBase ResetExternalTorqueAndForceMax)"

subsection \<open>The response structs\<close>

record Connect_Response = "Connect_Status ResponseBase" +
  version :: Version

text \<open>\<open>Response(Status status) : ResponseBase(status), version(kVersion) {}\<close>\<close>

definition Connect_Response :: "Connect_Status \<Rightarrow> Connect_Response" where
  "Connect_Response s =
     \<lparr>ResponseBase.function' = ResponseBase.function' (ResponseBase Connect s),
      status = status (ResponseBase Connect s), version = kVersion\<rparr>"

record GetCartesianLimit_Response = "GetCartesianLimit_Status ResponseBase" +
  object_p_min :: "double list"
  object_p_max :: "double list"
  object_frame :: "double list"
  object_activation :: bool

text \<open>The constructor that takes the status and the four results.\<close>

definition GetCartesianLimit_Response_with ::
  "GetCartesianLimit_Status \<Rightarrow> double list \<Rightarrow> double list \<Rightarrow> double list \<Rightarrow> bool
     \<Rightarrow> GetCartesianLimit_Response" where
  "GetCartesianLimit_Response_with s pmin pmax frame act =
     \<lparr>ResponseBase.function' = ResponseBase.function' (ResponseBase GetCartesianLimit s),
      status = status (ResponseBase GetCartesianLimit s),
      object_p_min = pmin, object_p_max = pmax, object_frame = frame,
      object_activation = act\<rparr>"

text \<open>
  The constructor that takes the status only: the members are value-initialised (\<open>{}\<close>),
  that is all doubles are zero and the flag is false.
\<close>

definition GetCartesianLimit_Response :: "GetCartesianLimit_Status \<Rightarrow> GetCartesianLimit_Response" where
  "GetCartesianLimit_Response s =
     \<lparr>ResponseBase.function' = ResponseBase.function' (ResponseBase GetCartesianLimit s),
      status = status (ResponseBase GetCartesianLimit s),
      object_p_min = replicate 3 0, object_p_max = replicate 3 0,
      object_frame = replicate 16 0, object_activation = False\<rparr>"

text \<open>
  A value of \<open>T::Response\<close>, for whichever command \<open>T\<close>. A struct that declares no
  \<open>Response\<close> has \<open>using Response = ResponseBase<T>\<close> from \<open>CommandBase\<close>, with the status
  type \<open>T::Status\<close>.
\<close>

datatype Response =
    Response_Connect Connect_Response
  | Response_StartMotionGenerator "StartMotionGenerator_Status ResponseBase"
  | Response_StopMotionGenerator "CommandBase_Status ResponseBase"
  | Response_StartController "CommandBase_Status ResponseBase"
  | Response_StopController "CommandBase_Status ResponseBase"
  | Response_GetCartesianLimit GetCartesianLimit_Response
  | Response_SetControllerMode "CommandBase_Status ResponseBase"
  | Response_SetCollisionBehavior "CommandBase_Status ResponseBase"
  | Response_SetJointImpedance "CommandBase_Status ResponseBase"
  | Response_SetCartesianImpedance "CommandBase_Status ResponseBase"
  | Response_SetGuidingMode "CommandBase_Status ResponseBase"
  | Response_SetEEToK "CommandBase_Status ResponseBase"
  | Response_SetFToEE "CommandBase_Status ResponseBase"
  | Response_SetLoad "CommandBase_Status ResponseBase"
  | Response_SetTimeScalingFactor "CommandBase_Status ResponseBase"
  | Response_AutomaticErrorRecovery "CommandBase_Status ResponseBase"
  | Response_ResetExternalTorqueAndForceMax "CommandBase_Status ResponseBase"

text \<open>The command \<open>T\<close> whose \<open>T::Response\<close> a value is.\<close>

fun Response_command :: "Response \<Rightarrow> Command" where
  "Response_command (Response_Connect r) = Connect"
| "Response_command (Response_StartMotionGenerator r) = StartMotionGenerator"
| "Response_command (Response_StopMotionGenerator r) = StopMotionGenerator"
| "Response_command (Response_StartController r) = StartController"
| "Response_command (Response_StopController r) = StopController"
| "Response_command (Response_GetCartesianLimit r) = GetCartesianLimit"
| "Response_command (Response_SetControllerMode r) = SetControllerMode"
| "Response_command (Response_SetCollisionBehavior r) = SetCollisionBehavior"
| "Response_command (Response_SetJointImpedance r) = SetJointImpedance"
| "Response_command (Response_SetCartesianImpedance r) = SetCartesianImpedance"
| "Response_command (Response_SetGuidingMode r) = SetGuidingMode"
| "Response_command (Response_SetEEToK r) = SetEEToK"
| "Response_command (Response_SetFToEE r) = SetFToEE"
| "Response_command (Response_SetLoad r) = SetLoad"
| "Response_command (Response_SetTimeScalingFactor r) = SetTimeScalingFactor"
| "Response_command (Response_AutomaticErrorRecovery r) = AutomaticErrorRecovery"
| "Response_command (Response_ResetExternalTorqueAndForceMax r) = ResetExternalTorqueAndForceMax"

text \<open>The members \<open>function\<close> and \<open>status\<close> of a response.\<close>

fun Response_function :: "Response \<Rightarrow> Function" where
  "Response_function (Response_Connect r) = ResponseBase.function' r"
| "Response_function (Response_StartMotionGenerator r) = ResponseBase.function' r"
| "Response_function (Response_StopMotionGenerator r) = ResponseBase.function' r"
| "Response_function (Response_StartController r) = ResponseBase.function' r"
| "Response_function (Response_StopController r) = ResponseBase.function' r"
| "Response_function (Response_GetCartesianLimit r) = ResponseBase.function' r"
| "Response_function (Response_SetControllerMode r) = ResponseBase.function' r"
| "Response_function (Response_SetCollisionBehavior r) = ResponseBase.function' r"
| "Response_function (Response_SetJointImpedance r) = ResponseBase.function' r"
| "Response_function (Response_SetCartesianImpedance r) = ResponseBase.function' r"
| "Response_function (Response_SetGuidingMode r) = ResponseBase.function' r"
| "Response_function (Response_SetEEToK r) = ResponseBase.function' r"
| "Response_function (Response_SetFToEE r) = ResponseBase.function' r"
| "Response_function (Response_SetLoad r) = ResponseBase.function' r"
| "Response_function (Response_SetTimeScalingFactor r) = ResponseBase.function' r"
| "Response_function (Response_AutomaticErrorRecovery r) = ResponseBase.function' r"
| "Response_function (Response_ResetExternalTorqueAndForceMax r) = ResponseBase.function' r"

fun Response_status :: "Response \<Rightarrow> Status" where
  "Response_status (Response_Connect r) = Status_Connect (status r)"
| "Response_status (Response_StartMotionGenerator r) = Status_StartMotionGenerator (status r)"
| "Response_status (Response_StopMotionGenerator r) = Status_CommandBase (status r)"
| "Response_status (Response_StartController r) = Status_CommandBase (status r)"
| "Response_status (Response_StopController r) = Status_CommandBase (status r)"
| "Response_status (Response_GetCartesianLimit r) = Status_GetCartesianLimit (status r)"
| "Response_status (Response_SetControllerMode r) = Status_CommandBase (status r)"
| "Response_status (Response_SetCollisionBehavior r) = Status_CommandBase (status r)"
| "Response_status (Response_SetJointImpedance r) = Status_CommandBase (status r)"
| "Response_status (Response_SetCartesianImpedance r) = Status_CommandBase (status r)"
| "Response_status (Response_SetGuidingMode r) = Status_CommandBase (status r)"
| "Response_status (Response_SetEEToK r) = Status_CommandBase (status r)"
| "Response_status (Response_SetFToEE r) = Status_CommandBase (status r)"
| "Response_status (Response_SetLoad r) = Status_CommandBase (status r)"
| "Response_status (Response_SetTimeScalingFactor r) = Status_CommandBase (status r)"
| "Response_status (Response_AutomaticErrorRecovery r) = Status_CommandBase (status r)"
| "Response_status (Response_ResetExternalTorqueAndForceMax r) = Status_CommandBase (status r)"

text \<open>
  A response is constructed when it is what its struct's constructor returns for the
  response's own status and results, with arrays of the declared sizes.
\<close>

fun Response_constructed :: "Response \<Rightarrow> bool" where
  "Response_constructed (Response_Connect r) = (r = Connect_Response (status r))"
| "Response_constructed (Response_StartMotionGenerator r) = (r = ResponseBase StartMotionGenerator (status r))"
| "Response_constructed (Response_StopMotionGenerator r) = (r = ResponseBase StopMotionGenerator (status r))"
| "Response_constructed (Response_StartController r) = (r = ResponseBase StartController (status r))"
| "Response_constructed (Response_StopController r) = (r = ResponseBase StopController (status r))"
| "Response_constructed (Response_GetCartesianLimit r) = 
     (r = GetCartesianLimit_Response_with (status r) (object_p_min r) (object_p_max r)
            (object_frame r) (object_activation r)
      \<and> length (object_p_min r) = 3 \<and> length (object_p_max r) = 3
      \<and> length (object_frame r) = 16)"
| "Response_constructed (Response_SetControllerMode r) = (r = ResponseBase SetControllerMode (status r))"
| "Response_constructed (Response_SetCollisionBehavior r) = (r = ResponseBase SetCollisionBehavior (status r))"
| "Response_constructed (Response_SetJointImpedance r) = (r = ResponseBase SetJointImpedance (status r))"
| "Response_constructed (Response_SetCartesianImpedance r) = (r = ResponseBase SetCartesianImpedance (status r))"
| "Response_constructed (Response_SetGuidingMode r) = (r = ResponseBase SetGuidingMode (status r))"
| "Response_constructed (Response_SetEEToK r) = (r = ResponseBase SetEEToK (status r))"
| "Response_constructed (Response_SetFToEE r) = (r = ResponseBase SetFToEE (status r))"
| "Response_constructed (Response_SetLoad r) = (r = ResponseBase SetLoad (status r))"
| "Response_constructed (Response_SetTimeScalingFactor r) = (r = ResponseBase SetTimeScalingFactor (status r))"
| "Response_constructed (Response_AutomaticErrorRecovery r) = (r = ResponseBase AutomaticErrorRecovery (status r))"
| "Response_constructed (Response_ResetExternalTorqueAndForceMax r) = (r = ResponseBase ResetExternalTorqueAndForceMax (status r))"

subsection \<open>\<open>struct Errors\<close> of \<open>robot/errors.h\<close>\<close>

text \<open>
  The unnamed enumeration of \<open>Errors\<close> has the underlying type \<open>size_t\<close>, whose width
  depends on the platform; its values are small and are kept as natural numbers.
\<close>

datatype Errors =
    kJointPositionLimitsViolation
  | kCartesianPositionLimitsViolation
  | kSelfcollisionAvoidanceViolation
  | kJointVelocityViolation
  | kCartesianVelocityViolation
  | kForceControlSafetyViolation
  | kJointReflex
  | kCartesianReflex
  | kMaxGoalPoseDeviationViolation
  | kMaxPathPoseDeviationViolation
  | kCartesianVelocityProfileSafetyViolation
  | kJointPositionMotionGeneratorStartPoseInvalid
  | kJointMotionGeneratorPositionLimitsViolation
  | kJointMotionGeneratorVelocityLimitsViolation
  | kJointMotionGeneratorVelocityDiscontinuity
  | kJointMotionGeneratorAccelerationDiscontinuity
  | kCartesianPositionMotionGeneratorStartPoseInvalid
  | kCartesianMotionGeneratorElbowLimitViolation
  | kCartesianMotionGeneratorVelocityLimitsViolation
  | kCartesianMotionGeneratorVelocityDiscontinuity
  | kCartesianMotionGeneratorAccelerationDiscontinuity
  | kCartesianMotionGeneratorElbowSignInconsistent
  | kCartesianMotionGeneratorStartElbowInvalid
  | kForceControllerDesiredForceToleranceViolation
  | kStartElbowSignInconsistent
  | kCommunicationConstraintsViolation
  | kPowerLimitViolation
  | kCartesianMotionGeneratorJointPositionLimitsViolation
  | kCartesianMotionGeneratorJointVelocityLimitsViolation
  | kCartesianMotionGeneratorJointVelocityDiscontinuity
  | kCartesianMotionGeneratorJointAccelerationDiscontinuity
  | kCartesianPositionMotionGeneratorInvalidFrame
  | kControllerTorqueDiscontinuity

fun Errors_value :: "Errors \<Rightarrow> nat" where
  "Errors_value kJointPositionLimitsViolation = 0"
| "Errors_value kCartesianPositionLimitsViolation = 1"
| "Errors_value kSelfcollisionAvoidanceViolation = 2"
| "Errors_value kJointVelocityViolation = 3"
| "Errors_value kCartesianVelocityViolation = 4"
| "Errors_value kForceControlSafetyViolation = 5"
| "Errors_value kJointReflex = 6"
| "Errors_value kCartesianReflex = 7"
| "Errors_value kMaxGoalPoseDeviationViolation = 8"
| "Errors_value kMaxPathPoseDeviationViolation = 9"
| "Errors_value kCartesianVelocityProfileSafetyViolation = 10"
| "Errors_value kJointPositionMotionGeneratorStartPoseInvalid = 11"
| "Errors_value kJointMotionGeneratorPositionLimitsViolation = 12"
| "Errors_value kJointMotionGeneratorVelocityLimitsViolation = 13"
| "Errors_value kJointMotionGeneratorVelocityDiscontinuity = 14"
| "Errors_value kJointMotionGeneratorAccelerationDiscontinuity = 15"
| "Errors_value kCartesianPositionMotionGeneratorStartPoseInvalid = 16"
| "Errors_value kCartesianMotionGeneratorElbowLimitViolation = 17"
| "Errors_value kCartesianMotionGeneratorVelocityLimitsViolation = 18"
| "Errors_value kCartesianMotionGeneratorVelocityDiscontinuity = 19"
| "Errors_value kCartesianMotionGeneratorAccelerationDiscontinuity = 20"
| "Errors_value kCartesianMotionGeneratorElbowSignInconsistent = 21"
| "Errors_value kCartesianMotionGeneratorStartElbowInvalid = 22"
| "Errors_value kForceControllerDesiredForceToleranceViolation = 23"
| "Errors_value kStartElbowSignInconsistent = 24"
| "Errors_value kCommunicationConstraintsViolation = 25"
| "Errors_value kPowerLimitViolation = 26"
| "Errors_value kCartesianMotionGeneratorJointPositionLimitsViolation = 27"
| "Errors_value kCartesianMotionGeneratorJointVelocityLimitsViolation = 28"
| "Errors_value kCartesianMotionGeneratorJointVelocityDiscontinuity = 29"
| "Errors_value kCartesianMotionGeneratorJointAccelerationDiscontinuity = 30"
| "Errors_value kCartesianPositionMotionGeneratorInvalidFrame = 31"
| "Errors_value kControllerTorqueDiscontinuity = 32"

text \<open>The enumerators in declaration order.\<close>

definition Errors_enumerators :: "Errors list" where
  "Errors_enumerators =
    [kJointPositionLimitsViolation, kCartesianPositionLimitsViolation,
     kSelfcollisionAvoidanceViolation, kJointVelocityViolation,
     kCartesianVelocityViolation, kForceControlSafetyViolation, kJointReflex,
     kCartesianReflex, kMaxGoalPoseDeviationViolation, kMaxPathPoseDeviationViolation,
     kCartesianVelocityProfileSafetyViolation,
     kJointPositionMotionGeneratorStartPoseInvalid,
     kJointMotionGeneratorPositionLimitsViolation,
     kJointMotionGeneratorVelocityLimitsViolation,
     kJointMotionGeneratorVelocityDiscontinuity,
     kJointMotionGeneratorAccelerationDiscontinuity,
     kCartesianPositionMotionGeneratorStartPoseInvalid,
     kCartesianMotionGeneratorElbowLimitViolation,
     kCartesianMotionGeneratorVelocityLimitsViolation,
     kCartesianMotionGeneratorVelocityDiscontinuity,
     kCartesianMotionGeneratorAccelerationDiscontinuity,
     kCartesianMotionGeneratorElbowSignInconsistent,
     kCartesianMotionGeneratorStartElbowInvalid,
     kForceControllerDesiredForceToleranceViolation, kStartElbowSignInconsistent,
     kCommunicationConstraintsViolation, kPowerLimitViolation,
     kCartesianMotionGeneratorJointPositionLimitsViolation,
     kCartesianMotionGeneratorJointVelocityLimitsViolation,
     kCartesianMotionGeneratorJointVelocityDiscontinuity,
     kCartesianMotionGeneratorJointAccelerationDiscontinuity,
     kCartesianPositionMotionGeneratorInvalidFrame, kControllerTorqueDiscontinuity]"

subsection \<open>The members of the request and response structs\<close>

text \<open>
  The types of the members, with the sizes of the usual ABI: a \<open>double\<close> has 8 bytes, a
  \<open>bool\<close> has 1, and an enumeration has the size of its underlying type.
\<close>

datatype CType = T_uint16 | T_uint32 | T_bool | T_double | T_array CType nat

fun sizeof :: "CType \<Rightarrow> nat" where
  "sizeof T_uint16 = 2"
| "sizeof T_uint32 = 4"
| "sizeof T_bool = 1"
| "sizeof T_double = 8"
| "sizeof (T_array t n) = n * sizeof t"

text \<open>
  The members that \<open>T::Request\<close> declares itself, in declaration order; the member
  \<open>function\<close> of its base is not among them. The two \<open>mode\<close> members have enumeration
  types over \<open>uint32_t\<close>.
\<close>

fun Request_members :: "Command \<Rightarrow> (string \<times> CType) list" where
  "Request_members Connect = [(''version'', T_uint16), (''udp_port'', T_uint16)]"
| "Request_members StartMotionGenerator = [(''mode'', T_uint32)]"
| "Request_members SetControllerMode = [(''mode'', T_uint32)]"
| "Request_members SetCollisionBehavior =
     [(''torque_thresholds_acceleration'', T_array T_double 14),
      (''torque_thresholds_nominal'', T_array T_double 14),
      (''force_thresholds_acceleration'', T_array T_double 12),
      (''force_thresholds_nominal'', T_array T_double 12)]"
| "Request_members SetJointImpedance = [(''K_theta'', T_array T_double 7)]"
| "Request_members SetCartesianImpedance = [(''K_x'', T_array T_double 6)]"
| "Request_members SetGuidingMode =
     [(''guiding_mode'', T_array T_bool 6), (''nullspace'', T_bool)]"
| "Request_members SetEEToK = [(''EE_T_K'', T_array T_double 16)]"
| "Request_members SetFToEE = [(''F_T_EE'', T_array T_double 16)]"
| "Request_members SetLoad =
     [(''m_load'', T_double), (''F_x_Cload'', T_array T_double 3),
      (''I_load'', T_array T_double 9)]"
| "Request_members SetTimeScalingFactor = [(''time_scaling_factor'', T_double)]"
| "Request_members T = []"

text \<open>
  The members that \<open>T::Response\<close> declares itself; the members \<open>function\<close> and \<open>status\<close>
  of its base are not among them.
\<close>

fun Response_members :: "Command \<Rightarrow> (string \<times> CType) list" where
  "Response_members Connect = [(''version'', T_uint16)]"
| "Response_members GetCartesianLimit =
     [(''object_p_min'', T_array T_double 3), (''object_p_max'', T_array T_double 3),
      (''object_frame'', T_array T_double 16), (''object_activation'', T_bool)]"
| "Response_members T = []"

text \<open>The bytes that a list of members holds, one after the other.\<close>

definition payload_size :: "(string \<times> CType) list \<Rightarrow> nat" where
  "payload_size ms = sum_list (map (\<lambda>m. sizeof (snd m)) ms)"

text \<open>A size rounded up to the next multiple of an alignment.\<close>

definition padded :: "nat \<Rightarrow> nat \<Rightarrow> nat" where
  "padded a n = ((n + a - 1) div a) * a"

section \<open>The protocol layer of the specification\<close>

text \<open>
  The source declares the messages and their constructors only. The wire codec, the
  version negotiation and the session state machine of the specification are not in it;
  they are modelled here from the specification, over the message types of the source.
\<close>

subsection \<open>Wire codec\<close>

text \<open>
  Modelled from the spec: the errors of the wire codec, which is not in the source
  (section 7, tier 1: malformed length, function identifier mismatch, unknown function
  identifier; a field that holds no value of its enumeration is malformed too).
\<close>

datatype FramingError =
  MalformedLength | UnknownFunctionId | FunctionIdMismatch | MalformedField

text \<open>
  Modelled from the spec: the byte order of the wire codec, which is not in the source
  (section 4.1: numeric fields are little-endian). \<open>le_bytes n v\<close> is the \<open>n\<close> low bytes
  of \<open>v\<close>, the least significant first; \<open>le_value\<close> reads such bytes back.
\<close>

fun le_bytes :: "nat \<Rightarrow> nat \<Rightarrow> byte list" where
  "le_bytes 0 v = []"
| "le_bytes (Suc n) v = word_of_nat (v mod 256) # le_bytes n (v div 256)"

text \<open>
  Modelled from the spec: the reading of little-endian bytes (section 4.1), the inverse of
  \<open>le_bytes\<close>; the codec is not in the source.
\<close>

fun le_value :: "byte list \<Rightarrow> nat" where
  "le_value [] = 0"
| "le_value (b # bs) = unat b + 256 * le_value bs"

text \<open>
  Modelled from the spec: the encoding of the scalar fields, which is not in the source
  (section 6: a version and a port take 2 bytes, a function identifier and a status 4; a
  double takes 8 bytes; a boolean takes one byte, 1 for true and 0 for false).
\<close>

definition encode_uint16 :: "16 word \<Rightarrow> byte list" where
  "encode_uint16 w = le_bytes 2 (unat w)"

text \<open>
  Modelled from the spec: the decoding of a 2-byte field (sections 4.1 and 6); the codec
  is not in the source.
\<close>

definition decode_uint16 :: "byte list \<Rightarrow> 16 word" where
  "decode_uint16 bs = word_of_nat (le_value bs)"

text \<open>
  Modelled from the spec: the encoding of a 4-byte field, a function identifier, a status
  or a mode (sections 4.1 and 6); the codec is not in the source.
\<close>

definition encode_uint32 :: "32 word \<Rightarrow> byte list" where
  "encode_uint32 w = le_bytes 4 (unat w)"

text \<open>
  Modelled from the spec: the decoding of a 4-byte field (sections 4.1 and 6); the codec
  is not in the source.
\<close>

definition decode_uint32 :: "byte list \<Rightarrow> 32 word" where
  "decode_uint32 bs = word_of_nat (le_value bs)"

text \<open>
  Modelled from the spec: the encoding of a double, the 8 bytes of its pattern (sections
  4.1 and 6); the codec is not in the source.
\<close>

definition encode_double :: "double \<Rightarrow> byte list" where
  "encode_double d = le_bytes 8 (unat d)"

text \<open>
  Modelled from the spec: the decoding of a double (sections 4.1 and 6); the codec is not
  in the source.
\<close>

definition decode_double :: "byte list \<Rightarrow> double" where
  "decode_double bs = word_of_nat (le_value bs)"

text \<open>
  Modelled from the spec: the encoding of a boolean in one byte (section 6); the codec is
  not in the source.
\<close>

definition encode_bool :: "bool \<Rightarrow> byte list" where
  "encode_bool b = [if b then 1 else 0]"

text \<open>
  Modelled from the spec: the decoding of a boolean, true for a byte other than 0; the
  codec is not in the source.
\<close>

definition decode_bool :: "byte list \<Rightarrow> bool" where
  "decode_bool bs = (le_value bs \<noteq> 0)"

text \<open>
  Modelled from the spec: the encoding of the fixed-length arrays, which is not in the
  source (section 3: payloads are fixed-length arrays of doubles, with no variable-length
  field): the elements one after the other, with no count and no padding.
\<close>

definition encode_doubles :: "double list \<Rightarrow> byte list" where
  "encode_doubles ds = concat (map encode_double ds)"

text \<open>
  Modelled from the spec: the decoding of an array of \<open>n\<close> doubles from the
  front of the bytes (section 3); the codec is not in the source.
\<close>

fun decode_doubles :: "nat \<Rightarrow> byte list \<Rightarrow> double list" where
  "decode_doubles 0 bs = []"
| "decode_doubles (Suc n) bs = decode_double (take 8 bs) # decode_doubles n (drop 8 bs)"

text \<open>
  Modelled from the spec: the encoding of an array of booleans, one byte each (section 3);
  the codec is not in the source.
\<close>

definition encode_bools :: "bool list \<Rightarrow> byte list" where
  "encode_bools bs = concat (map encode_bool bs)"

text \<open>
  Modelled from the spec: the decoding of an array of \<open>n\<close> booleans from the
  front of the bytes (section 3); the codec is not in the source.
\<close>

fun decode_bools :: "nat \<Rightarrow> byte list \<Rightarrow> bool list" where
  "decode_bools 0 bs = []"
| "decode_bools (Suc n) bs = decode_bool (take 1 bs) # decode_bools n (drop 1 bs)"

text \<open>
  Modelled from the spec: the decoding of the enumerations, which is not in the source:
  the enumerator whose value the 4 bytes hold, if there is one.
\<close>

definition decode_Function :: "byte list \<Rightarrow> Function option" where
  "decode_Function bs = find (\<lambda>f. Function_value f = decode_uint32 bs) Function_enumerators"

text \<open>
  Modelled from the spec: the decoding of a motion-generator mode, a mode enumeration of a
  payload (section 3); the codec is not in the source.
\<close>

definition decode_MotionGeneratorMode :: "byte list \<Rightarrow> MotionGeneratorMode option" where
  "decode_MotionGeneratorMode bs =
     find (\<lambda>m. MotionGeneratorMode_value m = decode_uint32 bs)
       [MotionGeneratorMode.kJointPosition, kJointVelocity, kCartesianPosition,
        kCartesianVelocity]"

text \<open>
  Modelled from the spec: the decoding of a controller mode, a mode enumeration of a
  payload (section 3); the codec is not in the source.
\<close>

definition decode_ControllerMode :: "byte list \<Rightarrow> ControllerMode option" where
  "decode_ControllerMode bs =
     find (\<lambda>m. ControllerMode_value m = decode_uint32 bs)
       [kMotorPD, ControllerMode.kJointPosition, kJointImpedance, kCartesianImpedance]"

text \<open>
  Modelled from the spec: the decoding of a status of the inherited enumeration (section
  6: the status takes 4 bytes); the codec is not in the source.
\<close>

definition decode_CommandBase_Status :: "byte list \<Rightarrow> CommandBase_Status option" where
  "decode_CommandBase_Status bs =
     find (\<lambda>s. CommandBase_Status_value s = decode_uint32 bs) [CommandBase_Status.kSuccess]"

text \<open>
  Modelled from the spec: the decoding of a status of \<open>Connect\<close> (section 6);
  the codec is not in the source.
\<close>

definition decode_Connect_Status :: "byte list \<Rightarrow> Connect_Status option" where
  "decode_Connect_Status bs =
     find (\<lambda>s. Connect_Status_value s = decode_uint32 bs)
       [Connect_Status.kSuccess, kIncompatibleLibraryVersion]"

text \<open>
  Modelled from the spec: the decoding of a status of \<open>StartMotionGenerator\<close>
  (section 6); the codec is not in the source.
\<close>

definition decode_StartMotionGenerator_Status ::
  "byte list \<Rightarrow> StartMotionGenerator_Status option" where
  "decode_StartMotionGenerator_Status bs =
     find (\<lambda>s. StartMotionGenerator_Status_value s = decode_uint32 bs)
       [StartMotionGenerator_Status.kSuccess, kInvalidType, kFinished, kAborted, kRejected]"

text \<open>
  Modelled from the spec: the decoding of a status of \<open>GetCartesianLimit\<close>
  (section 6); the codec is not in the source.
\<close>

definition decode_GetCartesianLimit_Status :: "byte list \<Rightarrow> GetCartesianLimit_Status option" where
  "decode_GetCartesianLimit_Status bs =
     find (\<lambda>s. GetCartesianLimit_Status_value s = decode_uint32 bs)
       [GetCartesianLimit_Status.kSuccess, kReceived]"

text \<open>
  Modelled from the spec: the command registry, which is not in the source (section 4.2:
  a closed mapping of 17 entries from a function identifier to the shapes of its
  command), and the fixed length of a frame (section 6: 4 bytes of function identifier,
  then the payload of a request; 4 bytes of function identifier, 4 bytes of status, then
  the results of a response), with the members of the source's structs and no padding.
\<close>

fun Function_command :: "Function \<Rightarrow> Command" where
  "Function_command kConnect = Connect"
| "Function_command kStartMotionGenerator = StartMotionGenerator"
| "Function_command kStopMotionGenerator = StopMotionGenerator"
| "Function_command kStartController = StartController"
| "Function_command kStopController = StopController"
| "Function_command kGetCartesianLimit = GetCartesianLimit"
| "Function_command kSetControllerMode = SetControllerMode"
| "Function_command kSetCollisionBehavior = SetCollisionBehavior"
| "Function_command kSetJointImpedance = SetJointImpedance"
| "Function_command kSetCartesianImpedance = SetCartesianImpedance"
| "Function_command kSetGuidingMode = SetGuidingMode"
| "Function_command kSetEEToK = SetEEToK"
| "Function_command kSetFToEE = SetFToEE"
| "Function_command kSetLoad = SetLoad"
| "Function_command kSetTimeScalingFactor = SetTimeScalingFactor"
| "Function_command kAutomaticErrorRecovery = AutomaticErrorRecovery"
| "Function_command kResetExternalTorqueAndForceMax = ResetExternalTorqueAndForceMax"

text \<open>
  Modelled from the spec: the fixed length of the frame of a request (section 6: 4 bytes
  of function identifier, then the payload); the codec is not in the source.
\<close>

definition Request_size :: "Function \<Rightarrow> nat" where
  "Request_size fid = 4 + payload_size (Request_members (Function_command fid))"

text \<open>
  Modelled from the spec: the fixed length of the frame of a response (section 6: 4 bytes
  of function identifier, 4 bytes of status, then the results); the codec is not in the
  source.
\<close>

definition Response_size :: "Function \<Rightarrow> nat" where
  "Response_size fid = 4 + 4 + payload_size (Response_members (Function_command fid))"

text \<open>
  Modelled from the spec: \<open>encode\<close> of a request, which is not in the source (section
  6: the frame is the function identifier that the request carries, then its members in
  declaration order).
\<close>

fun encode_Request_payload :: "Request \<Rightarrow> byte list" where
  "encode_Request_payload (Request_Connect r) =
     encode_uint16 (Connect_Request.version r) @ encode_uint16 (udp_port r)"
| "encode_Request_payload (Request_StartMotionGenerator r) =
     encode_uint32 (MotionGeneratorMode_value (StartMotionGenerator_Request.mode r))"
| "encode_Request_payload (Request_StopMotionGenerator r) = []"
| "encode_Request_payload (Request_StartController r) = []"
| "encode_Request_payload (Request_StopController r) = []"
| "encode_Request_payload (Request_GetCartesianLimit r) = []"
| "encode_Request_payload (Request_SetControllerMode r) =
     encode_uint32 (ControllerMode_value (SetControllerMode_Request.mode r))"
| "encode_Request_payload (Request_SetCollisionBehavior r) =
     encode_doubles (torque_thresholds_acceleration r)
       @ encode_doubles (torque_thresholds_nominal r)
       @ encode_doubles (force_thresholds_acceleration r)
       @ encode_doubles (force_thresholds_nominal r)"
| "encode_Request_payload (Request_SetJointImpedance r) = encode_doubles (K_theta r)"
| "encode_Request_payload (Request_SetCartesianImpedance r) = encode_doubles (K_x r)"
| "encode_Request_payload (Request_SetGuidingMode r) =
     encode_bools (guiding_mode r) @ encode_bool (nullspace r)"
| "encode_Request_payload (Request_SetEEToK r) = encode_doubles (EE_T_K r)"
| "encode_Request_payload (Request_SetFToEE r) = encode_doubles (F_T_EE r)"
| "encode_Request_payload (Request_SetLoad r) =
     encode_double (m_load r) @ encode_doubles (F_x_Cload r) @ encode_doubles (I_load r)"
| "encode_Request_payload (Request_SetTimeScalingFactor r) =
     encode_double (time_scaling_factor r)"
| "encode_Request_payload (Request_AutomaticErrorRecovery r) = []"
| "encode_Request_payload (Request_ResetExternalTorqueAndForceMax r) = []"

text \<open>
  Modelled from the spec: the frame of a request (section 6: the function identifier, then
  the payload); the codec is not in the source.
\<close>

definition encode_Request :: "Request \<Rightarrow> byte list" where
  "encode_Request r =
     encode_uint32 (Function_value (Request_function r)) @ encode_Request_payload r"

text \<open>
  Modelled from the spec: the decoding of the payload of a request, which is not in the
  source (sections 4.1 and 6: the members in declaration order, for the shape that the
  function identifier selects). \<open>f\<close> is the function identifier found in the frame; it
  becomes the member \<open>function\<close> of the result.
\<close>

fun decode_Request_payload :: "Function \<Rightarrow> Function \<Rightarrow> byte list \<Rightarrow> FramingError + Request" where
  "decode_Request_payload kConnect f p =
     Inr (Request_Connect
       \<lparr>RequestBase.function' = f, Connect_Request.version = decode_uint16 (take 2 p),
        udp_port = decode_uint16 (take 2 (drop 2 p))\<rparr>)"
| "decode_Request_payload kStartMotionGenerator f p =
     (case decode_MotionGeneratorMode (take 4 p) of
        None \<Rightarrow> Inl MalformedField
      | Some m \<Rightarrow> Inr (Request_StartMotionGenerator
                   \<lparr>RequestBase.function' = f, StartMotionGenerator_Request.mode = m\<rparr>))"
| "decode_Request_payload kStopMotionGenerator f p =
     Inr (Request_StopMotionGenerator \<lparr>RequestBase.function' = f\<rparr>)"
| "decode_Request_payload kStartController f p =
     Inr (Request_StartController \<lparr>RequestBase.function' = f\<rparr>)"
| "decode_Request_payload kStopController f p =
     Inr (Request_StopController \<lparr>RequestBase.function' = f\<rparr>)"
| "decode_Request_payload kGetCartesianLimit f p =
     Inr (Request_GetCartesianLimit \<lparr>RequestBase.function' = f\<rparr>)"
| "decode_Request_payload kSetControllerMode f p =
     (case decode_ControllerMode (take 4 p) of
        None \<Rightarrow> Inl MalformedField
      | Some m \<Rightarrow> Inr (Request_SetControllerMode
                   \<lparr>RequestBase.function' = f, SetControllerMode_Request.mode = m\<rparr>))"
| "decode_Request_payload kSetCollisionBehavior f p =
     Inr (Request_SetCollisionBehavior
       \<lparr>RequestBase.function' = f,
        torque_thresholds_acceleration = decode_doubles 14 p,
        torque_thresholds_nominal = decode_doubles 14 (drop 112 p),
        force_thresholds_acceleration = decode_doubles 12 (drop 224 p),
        force_thresholds_nominal = decode_doubles 12 (drop 320 p)\<rparr>)"
| "decode_Request_payload kSetJointImpedance f p =
     Inr (Request_SetJointImpedance \<lparr>RequestBase.function' = f, K_theta = decode_doubles 7 p\<rparr>)"
| "decode_Request_payload kSetCartesianImpedance f p =
     Inr (Request_SetCartesianImpedance \<lparr>RequestBase.function' = f, K_x = decode_doubles 6 p\<rparr>)"
| "decode_Request_payload kSetGuidingMode f p =
     Inr (Request_SetGuidingMode
       \<lparr>RequestBase.function' = f, guiding_mode = decode_bools 6 p,
        nullspace = decode_bool (take 1 (drop 6 p))\<rparr>)"
| "decode_Request_payload kSetEEToK f p =
     Inr (Request_SetEEToK \<lparr>RequestBase.function' = f, EE_T_K = decode_doubles 16 p\<rparr>)"
| "decode_Request_payload kSetFToEE f p =
     Inr (Request_SetFToEE \<lparr>RequestBase.function' = f, F_T_EE = decode_doubles 16 p\<rparr>)"
| "decode_Request_payload kSetLoad f p =
     Inr (Request_SetLoad
       \<lparr>RequestBase.function' = f, m_load = decode_double (take 8 p),
        F_x_Cload = decode_doubles 3 (drop 8 p), I_load = decode_doubles 9 (drop 32 p)\<rparr>)"
| "decode_Request_payload kSetTimeScalingFactor f p =
     Inr (Request_SetTimeScalingFactor
       \<lparr>RequestBase.function' = f, time_scaling_factor = decode_double (take 8 p)\<rparr>)"
| "decode_Request_payload kAutomaticErrorRecovery f p =
     Inr (Request_AutomaticErrorRecovery \<lparr>RequestBase.function' = f\<rparr>)"
| "decode_Request_payload kResetExternalTorqueAndForceMax f p =
     Inr (Request_ResetExternalTorqueAndForceMax \<lparr>RequestBase.function' = f\<rparr>)"

text \<open>
  Modelled from the spec: \<open>decode(bytes, FunctionId)\<close> for a request (sections
  4.1, 5 and 7): a length that disagrees with the fixed length of the function identifier
  passed in, a function identifier in the frame that is unknown, and one that is not the
  function identifier passed in are framing errors, checked in this order; the codec is
  not in the source.
\<close>

definition decode_Request :: "byte list \<Rightarrow> Function \<Rightarrow> FramingError + Request" where
  "decode_Request bytes fid =
     (if length bytes \<noteq> Request_size fid then Inl MalformedLength
      else case decode_Function (take 4 bytes) of
             None \<Rightarrow> Inl UnknownFunctionId
           | Some f \<Rightarrow>
               if f \<noteq> fid then Inl FunctionIdMismatch
               else decode_Request_payload fid f (drop 4 bytes))"

text \<open>
  Modelled from the spec: \<open>encode\<close> and \<open>decode\<close> of a response, which are not in the
  source (sections 4.1, 6 and 7, as for a request, with the status after the function
  identifier).
\<close>

fun encode_Response_status :: "Response \<Rightarrow> byte list" where
  "encode_Response_status (Response_Connect r) =
     encode_uint32 (Connect_Status_value (status r))"
| "encode_Response_status (Response_StartMotionGenerator r) =
     encode_uint32 (StartMotionGenerator_Status_value (status r))"
| "encode_Response_status (Response_StopMotionGenerator r) =
     encode_uint32 (CommandBase_Status_value (status r))"
| "encode_Response_status (Response_StartController r) =
     encode_uint32 (CommandBase_Status_value (status r))"
| "encode_Response_status (Response_StopController r) =
     encode_uint32 (CommandBase_Status_value (status r))"
| "encode_Response_status (Response_GetCartesianLimit r) =
     encode_uint32 (GetCartesianLimit_Status_value (status r))"
| "encode_Response_status (Response_SetControllerMode r) =
     encode_uint32 (CommandBase_Status_value (status r))"
| "encode_Response_status (Response_SetCollisionBehavior r) =
     encode_uint32 (CommandBase_Status_value (status r))"
| "encode_Response_status (Response_SetJointImpedance r) =
     encode_uint32 (CommandBase_Status_value (status r))"
| "encode_Response_status (Response_SetCartesianImpedance r) =
     encode_uint32 (CommandBase_Status_value (status r))"
| "encode_Response_status (Response_SetGuidingMode r) =
     encode_uint32 (CommandBase_Status_value (status r))"
| "encode_Response_status (Response_SetEEToK r) =
     encode_uint32 (CommandBase_Status_value (status r))"
| "encode_Response_status (Response_SetFToEE r) =
     encode_uint32 (CommandBase_Status_value (status r))"
| "encode_Response_status (Response_SetLoad r) =
     encode_uint32 (CommandBase_Status_value (status r))"
| "encode_Response_status (Response_SetTimeScalingFactor r) =
     encode_uint32 (CommandBase_Status_value (status r))"
| "encode_Response_status (Response_AutomaticErrorRecovery r) =
     encode_uint32 (CommandBase_Status_value (status r))"
| "encode_Response_status (Response_ResetExternalTorqueAndForceMax r) =
     encode_uint32 (CommandBase_Status_value (status r))"

text \<open>
  Modelled from the spec: the results of a response, its members in declaration order
  (section 6); the codec is not in the source.
\<close>

fun encode_Response_payload :: "Response \<Rightarrow> byte list" where
  "encode_Response_payload (Response_Connect r) =
     encode_uint16 (Connect_Response.version r)"
| "encode_Response_payload (Response_StartMotionGenerator r) = []"
| "encode_Response_payload (Response_StopMotionGenerator r) = []"
| "encode_Response_payload (Response_StartController r) = []"
| "encode_Response_payload (Response_StopController r) = []"
| "encode_Response_payload (Response_GetCartesianLimit r) =
     encode_doubles (object_p_min r) @ encode_doubles (object_p_max r)
       @ encode_doubles (object_frame r) @ encode_bool (object_activation r)"
| "encode_Response_payload (Response_SetControllerMode r) = []"
| "encode_Response_payload (Response_SetCollisionBehavior r) = []"
| "encode_Response_payload (Response_SetJointImpedance r) = []"
| "encode_Response_payload (Response_SetCartesianImpedance r) = []"
| "encode_Response_payload (Response_SetGuidingMode r) = []"
| "encode_Response_payload (Response_SetEEToK r) = []"
| "encode_Response_payload (Response_SetFToEE r) = []"
| "encode_Response_payload (Response_SetLoad r) = []"
| "encode_Response_payload (Response_SetTimeScalingFactor r) = []"
| "encode_Response_payload (Response_AutomaticErrorRecovery r) = []"
| "encode_Response_payload (Response_ResetExternalTorqueAndForceMax r) = []"

text \<open>
  Modelled from the spec: the frame of a response (section 6: the function identifier, the
  status, then the results); the codec is not in the source.
\<close>

definition encode_Response :: "Response \<Rightarrow> byte list" where
  "encode_Response r =
     encode_uint32 (Function_value (Response_function r)) @ encode_Response_status r
       @ encode_Response_payload r"

text \<open>
  Modelled from the spec: the decoding of the status and of the results of a response, for
  the shape that the function identifier passed in selects (sections 4.1 and 6); the codec
  is not in the source.
\<close>

fun decode_Response_payload :: "Function \<Rightarrow> Function \<Rightarrow> byte list \<Rightarrow> FramingError + Response" where
  "decode_Response_payload kConnect f p =
     (case decode_Connect_Status (take 4 p) of
        None \<Rightarrow> Inl MalformedField
      | Some s \<Rightarrow> Inr (Response_Connect
                 \<lparr>ResponseBase.function' = f, status = s,
                  Connect_Response.version = decode_uint16 (take 2 (drop 4 p))\<rparr>))"
| "decode_Response_payload kStartMotionGenerator f p =
     (case decode_StartMotionGenerator_Status (take 4 p) of
        None \<Rightarrow> Inl MalformedField
      | Some s \<Rightarrow> Inr (Response_StartMotionGenerator \<lparr>ResponseBase.function' = f, status = s\<rparr>))"
| "decode_Response_payload kStopMotionGenerator f p =
     (case decode_CommandBase_Status (take 4 p) of
        None \<Rightarrow> Inl MalformedField
      | Some s \<Rightarrow> Inr (Response_StopMotionGenerator \<lparr>ResponseBase.function' = f, status = s\<rparr>))"
| "decode_Response_payload kStartController f p =
     (case decode_CommandBase_Status (take 4 p) of
        None \<Rightarrow> Inl MalformedField
      | Some s \<Rightarrow> Inr (Response_StartController \<lparr>ResponseBase.function' = f, status = s\<rparr>))"
| "decode_Response_payload kStopController f p =
     (case decode_CommandBase_Status (take 4 p) of
        None \<Rightarrow> Inl MalformedField
      | Some s \<Rightarrow> Inr (Response_StopController \<lparr>ResponseBase.function' = f, status = s\<rparr>))"
| "decode_Response_payload kGetCartesianLimit f p =
     (case decode_GetCartesianLimit_Status (take 4 p) of
        None \<Rightarrow> Inl MalformedField
      | Some s \<Rightarrow> Inr (Response_GetCartesianLimit
                 \<lparr>ResponseBase.function' = f, status = s,
                  object_p_min = decode_doubles 3 (drop 4 p),
                  object_p_max = decode_doubles 3 (drop 28 p),
                  object_frame = decode_doubles 16 (drop 52 p),
                  object_activation = decode_bool (take 1 (drop 180 p))\<rparr>))"
| "decode_Response_payload kSetControllerMode f p =
     (case decode_CommandBase_Status (take 4 p) of
        None \<Rightarrow> Inl MalformedField
      | Some s \<Rightarrow> Inr (Response_SetControllerMode \<lparr>ResponseBase.function' = f, status = s\<rparr>))"
| "decode_Response_payload kSetCollisionBehavior f p =
     (case decode_CommandBase_Status (take 4 p) of
        None \<Rightarrow> Inl MalformedField
      | Some s \<Rightarrow> Inr (Response_SetCollisionBehavior \<lparr>ResponseBase.function' = f, status = s\<rparr>))"
| "decode_Response_payload kSetJointImpedance f p =
     (case decode_CommandBase_Status (take 4 p) of
        None \<Rightarrow> Inl MalformedField
      | Some s \<Rightarrow> Inr (Response_SetJointImpedance \<lparr>ResponseBase.function' = f, status = s\<rparr>))"
| "decode_Response_payload kSetCartesianImpedance f p =
     (case decode_CommandBase_Status (take 4 p) of
        None \<Rightarrow> Inl MalformedField
      | Some s \<Rightarrow> Inr (Response_SetCartesianImpedance \<lparr>ResponseBase.function' = f, status = s\<rparr>))"
| "decode_Response_payload kSetGuidingMode f p =
     (case decode_CommandBase_Status (take 4 p) of
        None \<Rightarrow> Inl MalformedField
      | Some s \<Rightarrow> Inr (Response_SetGuidingMode \<lparr>ResponseBase.function' = f, status = s\<rparr>))"
| "decode_Response_payload kSetEEToK f p =
     (case decode_CommandBase_Status (take 4 p) of
        None \<Rightarrow> Inl MalformedField
      | Some s \<Rightarrow> Inr (Response_SetEEToK \<lparr>ResponseBase.function' = f, status = s\<rparr>))"
| "decode_Response_payload kSetFToEE f p =
     (case decode_CommandBase_Status (take 4 p) of
        None \<Rightarrow> Inl MalformedField
      | Some s \<Rightarrow> Inr (Response_SetFToEE \<lparr>ResponseBase.function' = f, status = s\<rparr>))"
| "decode_Response_payload kSetLoad f p =
     (case decode_CommandBase_Status (take 4 p) of
        None \<Rightarrow> Inl MalformedField
      | Some s \<Rightarrow> Inr (Response_SetLoad \<lparr>ResponseBase.function' = f, status = s\<rparr>))"
| "decode_Response_payload kSetTimeScalingFactor f p =
     (case decode_CommandBase_Status (take 4 p) of
        None \<Rightarrow> Inl MalformedField
      | Some s \<Rightarrow> Inr (Response_SetTimeScalingFactor \<lparr>ResponseBase.function' = f, status = s\<rparr>))"
| "decode_Response_payload kAutomaticErrorRecovery f p =
     (case decode_CommandBase_Status (take 4 p) of
        None \<Rightarrow> Inl MalformedField
      | Some s \<Rightarrow> Inr (Response_AutomaticErrorRecovery \<lparr>ResponseBase.function' = f, status = s\<rparr>))"
| "decode_Response_payload kResetExternalTorqueAndForceMax f p =
     (case decode_CommandBase_Status (take 4 p) of
        None \<Rightarrow> Inl MalformedField
      | Some s \<Rightarrow> Inr (Response_ResetExternalTorqueAndForceMax \<lparr>ResponseBase.function' = f, status = s\<rparr>))"

text \<open>
  Modelled from the spec: \<open>decode(bytes, FunctionId)\<close> for a response
  (sections 4.1, 5 and 7): a length that disagrees with the fixed length of the function
  identifier passed in, a function identifier in the frame that is unknown, and one that
  is not the function identifier passed in (the echo of a mismatched response) are
  framing errors, checked in this order; the codec is not in the source.
\<close>

definition decode_Response :: "byte list \<Rightarrow> Function \<Rightarrow> FramingError + Response" where
  "decode_Response bytes fid =
     (if length bytes \<noteq> Response_size fid then Inl MalformedLength
      else case decode_Function (take 4 bytes) of
             None \<Rightarrow> Inl UnknownFunctionId
           | Some f \<Rightarrow>
               if f \<noteq> fid then Inl FunctionIdMismatch
               else decode_Response_payload fid f (drop 4 bytes))"

subsection \<open>Version negotiation\<close>

text \<open>
  Modelled from the spec: the version negotiator, which is not in the source (section
  4.3: \<open>negotiate(clientVersion, serverVersion)\<close> is accepted when the two versions are
  equal and rejected as incompatible otherwise).
\<close>

datatype Negotiation = Accepted | Rejected_IncompatibleVersion

text \<open>
  Modelled from the spec: \<open>negotiate(clientVersion, serverVersion)\<close> (section
  4.3: equality is the only accepted relation); the negotiator is not in the source.
\<close>

definition negotiate :: "Version \<Rightarrow> Version \<Rightarrow> Negotiation" where
  "negotiate clientVersion serverVersion =
     (if clientVersion = serverVersion then Accepted else Rejected_IncompatibleVersion)"

text \<open>
  Modelled from the spec: the session state, which is not in the source (section 3: the
  active controller mode or none, the active motion-generator mode or none, the latched
  fault set; it is created at a successful connect, and the absent state is \<open>None\<close>).
\<close>

record SessionState =
  controller_mode :: "ControllerMode option"
  motion_generator_mode :: "MotionGeneratorMode option"
  latched_faults :: "Errors set"

text \<open>
  Modelled from the spec: the session state that a successful connect creates (sections 3
  and 4.4: no controller mode and no motion-generator mode is active, no fault is
  latched); the session logic is not in the source.
\<close>

definition initial_SessionState :: SessionState where
  "initial_SessionState =
     \<lparr>controller_mode = None, motion_generator_mode = None, latched_faults = {}\<rparr>"

text \<open>
  Modelled from the spec: the handling of a connect request by a server of a given
  version, which is not in the source (sections 4.3 and 4.4: connect succeeds when the
  negotiation accepts, and then the session state is created; on a rejection the status
  is \<open>kIncompatibleLibraryVersion\<close> and no session state is created; section 6: the
  server replies its status and its version).
\<close>

definition connect :: "Version \<Rightarrow> Connect_Request \<Rightarrow> Connect_Response \<times> SessionState option" where
  "connect serverVersion request =
     (case negotiate (Connect_Request.version request) serverVersion of
        Accepted \<Rightarrow>
          ((Connect_Response Connect_Status.kSuccess)\<lparr>Connect_Response.version := serverVersion\<rparr>,
           Some initial_SessionState)
      | Rejected_IncompatibleVersion \<Rightarrow>
          ((Connect_Response kIncompatibleLibraryVersion)\<lparr>Connect_Response.version := serverVersion\<rparr>,
           None))"

subsection \<open>Session state machine\<close>

text \<open>
  Modelled from the spec: the phase of an axis of the session state machine, which is not
  in the source (section 4.4: the controller axis and the motion-generator axis are each
  a tri-state, Idle, Starting or Active).
\<close>

datatype AxisPhase = Idle | Starting | Active

text \<open>
  Modelled from the spec: the state of the session state machine, which is not in the
  source (section 4.4: the two independent axes and the session-wide Faulted flag, over
  the session state of section 3, which holds the mode of each axis and the latched
  faults).
\<close>

record SessionMachine =
  session :: SessionState
  controller_axis :: AxisPhase
  motion_generator_axis :: AxisPhase
  faulted :: bool

text \<open>
  Modelled from the spec: the transition of \<open>StartMotionGenerator(mode)\<close>, which is not
  in the source (section 4.4: it is legal only when the motion-generator axis is Idle,
  and on success the axis becomes Active with the given mode; a request while the axis is
  Starting or Active is answered \<open>kRejected\<close>, not queued; an illegal attempt is
  reported by the status and changes nothing; section 8: after a fault it is legal only
  after the recovery).
\<close>

definition start_motion_generator ::
  "SessionMachine \<Rightarrow> StartMotionGenerator_Request
     \<Rightarrow> StartMotionGenerator_Status ResponseBase \<times> SessionMachine" where
  "start_motion_generator m request =
     (if motion_generator_axis m = Idle \<and> \<not> faulted m
      then (ResponseBase StartMotionGenerator StartMotionGenerator_Status.kSuccess,
            m\<lparr>session := (session m)
                   \<lparr>motion_generator_mode := Some (StartMotionGenerator_Request.mode request)\<rparr>,
              motion_generator_axis := Active\<rparr>)
      else (ResponseBase StartMotionGenerator kRejected, m))"

section \<open>Properties\<close>

lemma Function_enumerators_complete: "set Function_enumerators = UNIV"
proof -
  have "f \<in> set Function_enumerators" for f
    by (cases f) (simp_all add: Function_enumerators_def)
  then show ?thesis by blast
qed

text \<open>
  Claim C7. \<open>Function\<close> is a closed enumeration of exactly 17 operations: connect,
  start and stop motion generator, start and stop controller, get Cartesian limit, set
  controller mode, set collision behavior, set joint impedance, set Cartesian impedance,
  set guiding mode, set EE-to-K, set F-to-EE, set load, set time-scaling factor, automatic
  error recovery and reset external torque and force maximum. The 17 enumerators are
  pairwise different and so are their 17 values, which are 0 to 16.
\<close>

theorem Function_17_distinct:
  "Function_enumerators =
     [kConnect, kStartMotionGenerator, kStopMotionGenerator, kStartController,
      kStopController, kGetCartesianLimit, kSetControllerMode, kSetCollisionBehavior,
      kSetJointImpedance, kSetCartesianImpedance, kSetGuidingMode, kSetEEToK, kSetFToEE,
      kSetLoad, kSetTimeScalingFactor, kAutomaticErrorRecovery,
      kResetExternalTorqueAndForceMax]
   \<and> set Function_enumerators = (UNIV :: Function set)
   \<and> length Function_enumerators = 17
   \<and> card (UNIV :: Function set) = 17
   \<and> distinct Function_enumerators
   \<and> distinct (map Function_value Function_enumerators)
   \<and> map Function_value Function_enumerators = map word_of_nat [0 ..< 17]"
proof -
  have d: "distinct Function_enumerators"
    by (simp add: Function_enumerators_def)
  have l: "length Function_enumerators = 17"
    by (simp add: Function_enumerators_def)
  have "card (set Function_enumerators) = 17"
    using d l by (simp add: distinct_card)
  then have c: "card (UNIV :: Function set) = 17"
    by (simp add: Function_enumerators_complete)
  have v: "map Function_value Function_enumerators = map word_of_nat [0 ..< 17]"
    by (simp add: Function_enumerators_def upt_rec)
  have dv: "distinct (map Function_value Function_enumerators)"
    by (simp add: Function_enumerators_def)
  show ?thesis
    using d l c v dv Function_enumerators_complete
    by (simp add: Function_enumerators_def [symmetric])
qed

subsection \<open>The function identifier of requests and responses\<close>

lemma Request_function_other:
  "Request_constructed r \<Longrightarrow> Request_command r \<noteq> SetTimeScalingFactor \<Longrightarrow>
   Request_function r = kFunction (Request_command r)"
  by (cases r)
     (simp_all add: RequestBase_def Connect_Request_def StartMotionGenerator_Request_def
        SetControllerMode_Request_def SetCollisionBehavior_Request_def
        SetJointImpedance_Request_def SetCartesianImpedance_Request_def
        SetGuidingMode_Request_def SetEEToK_Request_def SetFToEE_Request_def
        SetLoad_Request_def, (metis RequestBase.select_convs(1))+)

lemma Response_function_all:
  "Response_constructed r \<Longrightarrow> Response_function r = kFunction (Response_command r)"
  by (cases r)
     (simp_all add: ResponseBase_def Connect_Response_def GetCartesianLimit_Response_with_def, (metis ResponseBase.select_convs(1))+)

text \<open>
  Claim C1. A request carries the function identifier of its own command, and the
  response to it carries the same identifier. The two lemmas above show this for the
  requests of the sixteen other commands and for every response. For
  \<open>SetTimeScalingFactor\<close> it fails: the request that its constructor builds carries
  \<open>kSetLoad\<close>, not \<open>kSetTimeScalingFactor\<close>, while the response of the same command
  carries \<open>kSetTimeScalingFactor\<close>, so the two identifiers differ.
\<close>

theorem SetTimeScalingFactor_Request_function:
  "Request_constructed (Request_SetTimeScalingFactor (SetTimeScalingFactor_Request t))
   \<and> Request_command (Request_SetTimeScalingFactor (SetTimeScalingFactor_Request t))
       = SetTimeScalingFactor
   \<and> Request_function (Request_SetTimeScalingFactor (SetTimeScalingFactor_Request t))
       = kSetLoad
   \<and> kFunction SetTimeScalingFactor = kSetTimeScalingFactor
   \<and> Response_constructed (Response_SetTimeScalingFactor (ResponseBase SetTimeScalingFactor s))
   \<and> Response_function (Response_SetTimeScalingFactor (ResponseBase SetTimeScalingFactor s))
       = kSetTimeScalingFactor
   \<and> Request_function (Request_SetTimeScalingFactor (SetTimeScalingFactor_Request t))
       \<noteq> Response_function (Response_SetTimeScalingFactor (ResponseBase SetTimeScalingFactor s))"
  by (simp add: SetTimeScalingFactor_Request_def RequestBase_def ResponseBase_def)

subsection \<open>Status enumerations\<close>

lemma Status_enumerators_complete: "set (Status_enumerators T) = {s. is_Status_of T s}"
proof -
  have a: "(s \<in> set (Status_enumerators T)) = is_Status_of T s" for s
  proof (cases s)
    case (Status_CommandBase x) then show ?thesis by (cases x; cases T) simp_all
  next
    case (Status_Connect x) then show ?thesis by (cases x; cases T) simp_all
  next
    case (Status_StartMotionGenerator x) then show ?thesis by (cases x; cases T) simp_all
  next
    case (Status_GetCartesianLimit x) then show ?thesis by (cases x; cases T) simp_all
  qed
  then show ?thesis by blast
qed

text \<open>
  Claim C2. For every one of the 17 commands \<open>T\<close>, the enumeration \<open>T::Status\<close> is
  represented in 32 unsigned bits (the type of \<open>static_cast_uint32\<close>), it has the
  enumerator \<open>kSuccess\<close>, whose value is 0 (which is also what the assertion of
  \<open>ResponseBase<T>\<close> checks), and \<open>kSuccess\<close> is its only enumerator with the value 0: a
  value \<open>s\<close> of any command's status type is encoded as 0 exactly when it is that
  command's \<open>kSuccess\<close>.
\<close>

theorem Status_kSuccess_is_zero:
  "Status_kSuccess T \<in> set (Status_enumerators T)
   \<and> static_cast_uint32 (Status_kSuccess T) = 0
   \<and> ResponseBase_static_assert T
   \<and> filter (\<lambda>s. static_cast_uint32 s = 0) (Status_enumerators T) = [Status_kSuccess T]
   \<and> ((is_Status_of T s \<and> static_cast_uint32 s = 0) = (s = Status_kSuccess T))"
proof -
  have 1: "Status_kSuccess T \<in> set (Status_enumerators T)" by (cases T) simp_all
  have 2: "static_cast_uint32 (Status_kSuccess T) = 0" by (cases T) simp_all
  have 3: "filter (\<lambda>s. static_cast_uint32 s = 0) (Status_enumerators T) = [Status_kSuccess T]"
    by (cases T) simp_all
  have 4: "(is_Status_of T s \<and> static_cast_uint32 s = 0) = (s = Status_kSuccess T)"
  proof -
    have "s \<in> set (filter (\<lambda>s. static_cast_uint32 s = 0) (Status_enumerators T))
          = (s = Status_kSuccess T)"
      unfolding 3 by simp
    then show ?thesis by (simp add: Status_enumerators_complete)
  qed
  show ?thesis using 1 2 3 4 by (simp add: ResponseBase_static_assert_def)
qed

lemma Command_structs_complete: "set Command_structs = UNIV"
proof -
  have "T \<in> set Command_structs" for T
    by (cases T) (simp_all add: Command_structs_def)
  then show ?thesis by blast
qed

text \<open>
  Claim C9. The commands that declare no \<open>Status\<close> of their own are exactly
  \<open>StopMotionGenerator\<close>, \<open>StartController\<close>, \<open>StopController\<close>, \<open>SetControllerMode\<close>,
  \<open>SetCollisionBehavior\<close>, \<open>SetJointImpedance\<close>, \<open>SetCartesianImpedance\<close>,
  \<open>SetGuidingMode\<close>, \<open>SetEEToK\<close>, \<open>SetFToEE\<close>, \<open>SetLoad\<close>, \<open>SetTimeScalingFactor\<close>,
  \<open>AutomaticErrorRecovery\<close> and \<open>ResetExternalTorqueAndForceMax\<close>. The status
  enumeration of each of them, which is the type of the status of its response, is the
  inherited one: it declares exactly one enumerator, \<open>kSuccess = 0\<close>. No enumerator with a
  value other than 0 is declared for them: the only commands with such an enumerator
  are \<open>Connect\<close>, \<open>StartMotionGenerator\<close> and \<open>GetCartesianLimit\<close>, and each of
  \<open>kIncompatibleLibraryVersion\<close>, \<open>kInvalidType\<close>, \<open>kFinished\<close>, \<open>kAborted\<close>,
  \<open>kRejected\<close> and \<open>kReceived\<close> is an enumerator of one of these three only. So no
  failure, rejection or abort has a name in the status enumeration of the 14 commands.
\<close>

theorem inherited_Status_only_kSuccess:
  "set Command_structs = UNIV
   \<and> filter (\<lambda>T. Status_enumerators T = [Status_CommandBase CommandBase_Status.kSuccess])
        Command_structs
       = [StopMotionGenerator, StartController, StopController, SetControllerMode,
          SetCollisionBehavior, SetJointImpedance, SetCartesianImpedance, SetGuidingMode,
          SetEEToK, SetFToEE, SetLoad, SetTimeScalingFactor, AutomaticErrorRecovery,
          ResetExternalTorqueAndForceMax]
   \<and> map Status_enumerators
        [StopMotionGenerator, StartController, StopController, SetControllerMode,
         SetCollisionBehavior, SetJointImpedance, SetCartesianImpedance, SetGuidingMode,
         SetEEToK, SetFToEE, SetLoad, SetTimeScalingFactor, AutomaticErrorRecovery,
         ResetExternalTorqueAndForceMax]
       = replicate 14 [Status_CommandBase CommandBase_Status.kSuccess]
   \<and> static_cast_uint32 (Status_CommandBase CommandBase_Status.kSuccess) = 0
   \<and> filter (\<lambda>T. list_ex (\<lambda>s. static_cast_uint32 s \<noteq> 0) (Status_enumerators T))
        Command_structs
       = [Connect, StartMotionGenerator, GetCartesianLimit]
   \<and> map (\<lambda>s. filter (\<lambda>T. s \<in> set (Status_enumerators T)) Command_structs)
        [Status_Connect kIncompatibleLibraryVersion,
         Status_StartMotionGenerator kInvalidType,
         Status_StartMotionGenerator kFinished,
         Status_StartMotionGenerator kAborted,
         Status_StartMotionGenerator kRejected,
         Status_GetCartesianLimit kReceived]
       = [[Connect], [StartMotionGenerator], [StartMotionGenerator], [StartMotionGenerator],
          [StartMotionGenerator], [GetCartesianLimit]]"
proof -
  have 1: "filter (\<lambda>T. Status_enumerators T = [Status_CommandBase CommandBase_Status.kSuccess])
        Command_structs
       = [StopMotionGenerator, StartController, StopController, SetControllerMode,
          SetCollisionBehavior, SetJointImpedance, SetCartesianImpedance, SetGuidingMode,
          SetEEToK, SetFToEE, SetLoad, SetTimeScalingFactor, AutomaticErrorRecovery,
          ResetExternalTorqueAndForceMax]"
    by (simp add: Command_structs_def)
  have 2: "map Status_enumerators
        [StopMotionGenerator, StartController, StopController, SetControllerMode,
         SetCollisionBehavior, SetJointImpedance, SetCartesianImpedance, SetGuidingMode,
         SetEEToK, SetFToEE, SetLoad, SetTimeScalingFactor, AutomaticErrorRecovery,
         ResetExternalTorqueAndForceMax]
       = replicate 14 [Status_CommandBase CommandBase_Status.kSuccess]"
    by (simp add: numeral_eq_Suc)
  have 3: "filter (\<lambda>T. list_ex (\<lambda>s. static_cast_uint32 s \<noteq> 0) (Status_enumerators T))
        Command_structs
       = [Connect, StartMotionGenerator, GetCartesianLimit]"
    by (simp add: Command_structs_def)
  have 4: "map (\<lambda>s. filter (\<lambda>T. s \<in> set (Status_enumerators T)) Command_structs)
        [Status_Connect kIncompatibleLibraryVersion,
         Status_StartMotionGenerator kInvalidType,
         Status_StartMotionGenerator kFinished,
         Status_StartMotionGenerator kAborted,
         Status_StartMotionGenerator kRejected,
         Status_GetCartesianLimit kReceived]
       = [[Connect], [StartMotionGenerator], [StartMotionGenerator], [StartMotionGenerator],
          [StartMotionGenerator], [GetCartesianLimit]]"
    by (simp add: Command_structs_def)
  show ?thesis
    using 1 2 3 4 Command_structs_complete by simp
qed

subsection \<open>The protocol version of a connect exchange\<close>

text \<open>
  Claim C10. The version carried in a connect exchange is the constant \<open>kVersion = 1\<close>:
  for every port, the request that the constructor builds has version 1, for every
  status, the response that the constructor builds has version 1, and no constructed
  connect request or response has another version.
\<close>

theorem Connect_version_is_kVersion:
  "kVersion = 1
   \<and> Connect_Request.version (Connect_Request udp_port') = 1
   \<and> Connect_Response.version (Connect_Response status') = 1
   \<and> (\<forall>r. Request_constructed (Request_Connect r) \<longrightarrow> Connect_Request.version r = 1)
   \<and> (\<forall>r. Response_constructed (Response_Connect r) \<longrightarrow> Connect_Response.version r = 1)"
proof -
  have 1: "Connect_Request.version (Connect_Request p) = 1" for p
    by (simp add: Connect_Request_def kVersion_def)
  have 2: "Connect_Response.version (Connect_Response s) = 1" for s
    by (simp add: Connect_Response_def kVersion_def)
  have 3: "Request_constructed (Request_Connect r) \<Longrightarrow> Connect_Request.version r = 1" for r
    using 1 [of "udp_port r"] by simp
  have 4: "Response_constructed (Response_Connect r) \<Longrightarrow> Connect_Response.version r = 1" for r
    using 2 [of "status r"] by simp
  show ?thesis using 1 2 3 4 by (simp add: kVersion_def)
qed

theorem Connect_version_is_kVersion_witness:
  "Request_constructed (Request_Connect (Connect_Request 1337))
   \<and> Connect_Request.version (Connect_Request 1337) = 1
   \<and> Response_constructed (Response_Connect (Connect_Response kIncompatibleLibraryVersion))
   \<and> Connect_Response.version (Connect_Response kIncompatibleLibraryVersion) = 1"
  using Connect_version_is_kVersion [of 1337 kIncompatibleLibraryVersion]
  by (simp add: Connect_Request_def Connect_Response_def RequestBase_def ResponseBase_def)

subsection \<open>The vocabulary of safety violations\<close>

lemma Errors_enumerators_complete: "set Errors_enumerators = UNIV"
proof -
  have "e \<in> set Errors_enumerators" for e
    by (cases e) (simp_all add: Errors_enumerators_def)
  then show ?thesis by blast
qed

lemma Errors_enumerators_distinct: "distinct Errors_enumerators"
  by (simp add: Errors_enumerators_def)

lemma Errors_enumerators_length: "length Errors_enumerators = 33"
  by (simp add: Errors_enumerators_def)

lemma card_Errors: "card (UNIV :: Errors set) = 33"
  using distinct_card [OF Errors_enumerators_distinct]
  by (simp add: Errors_enumerators_complete Errors_enumerators_length)

text \<open>
  Claim C3, as stated: the set of safety violations is drawn from a closed vocabulary of
  exactly 31 named kinds. The enumeration of \<open>Errors\<close> has 33 enumerators, not 31: the
  last two, \<open>kCartesianPositionMotionGeneratorInvalidFrame\<close> and
  \<open>kControllerTorqueDiscontinuity\<close>, have the values 31 and 32.
\<close>

theorem Errors_vocabulary_not_31:
  "card (UNIV :: Errors set) \<noteq> 31
   \<and> length Errors_enumerators \<noteq> 31
   \<and> Errors_value kCartesianPositionMotionGeneratorInvalidFrame = 31
   \<and> Errors_value kControllerTorqueDiscontinuity = 32"
  by (simp add: card_Errors Errors_enumerators_length)

text \<open>
  Claim C3, amended: the set of safety violations is drawn from a closed vocabulary of
  exactly 33 named kinds, the enumerators of \<open>Errors\<close>, whose values are 0 to 32 without
  repetition. Whatever classifier maps raw fault flags to a set of violation kinds, its
  result lies in this vocabulary of 33 and, being a set, holds each kind at most once, so
  it has at most 33 elements.
\<close>

theorem Errors_vocabulary_33:
  fixes classify :: "'raw \<Rightarrow> Errors set"
  shows "length Errors_enumerators = 33
   \<and> distinct Errors_enumerators
   \<and> set Errors_enumerators = UNIV
   \<and> card (UNIV :: Errors set) = 33
   \<and> map Errors_value Errors_enumerators = [0 ..< 33]
   \<and> classify raw \<subseteq> set Errors_enumerators
   \<and> finite (classify raw)
   \<and> card (classify raw) \<le> 33"
proof -
  have v: "map Errors_value Errors_enumerators = [0 ..< 33]"
    by (simp add: Errors_enumerators_def upt_rec)
  have f: "finite (UNIV :: Errors set)"
    using Errors_enumerators_complete [symmetric] by (metis List.finite_set)
  have s: "classify raw \<subseteq> UNIV" by simp
  have c: "card (classify raw) \<le> 33"
    using card_mono [OF f s] by (simp add: card_Errors)
  show ?thesis
    using v c finite_subset [OF s f]
    by (simp add: Errors_enumerators_complete Errors_enumerators_distinct
        Errors_enumerators_length card_Errors)
qed

subsection \<open>Payload sizes\<close>

text \<open>
  Claim C4, amended: without the 4-byte function identifier, and with 8 bytes for each
  double, the members of the request of \<open>SetCollisionBehavior\<close> take 416 bytes (arrays of
  14, 14, 12 and 12 doubles), of \<open>SetJointImpedance\<close> 56 (7 doubles), of
  \<open>SetCartesianImpedance\<close> 48 (6 doubles), of \<open>SetEEToK\<close> and of \<open>SetFToEE\<close> 128 each
  (16 doubles), of \<open>SetLoad\<close> 104 (1 + 3 + 9 doubles). The results of the response of
  \<open>GetCartesianLimit\<close> take 177 bytes: 176 for the 3 + 3 + 16 doubles and 1 for the
  boolean, which is 184 when padded to a multiple of 8 (and 177, 178, 180, 184, 192 for
  the alignments 1, 2, 4, 8, 16).
\<close>

theorem payload_sizes:
  "payload_size (Request_members SetCollisionBehavior) = 416
   \<and> payload_size (Request_members SetJointImpedance) = 56
   \<and> payload_size (Request_members SetCartesianImpedance) = 48
   \<and> payload_size (Request_members SetEEToK) = 128
   \<and> payload_size (Request_members SetFToEE) = 128
   \<and> payload_size (Request_members SetLoad) = 104
   \<and> payload_size (Response_members GetCartesianLimit) = 177
   \<and> payload_size (butlast (Response_members GetCartesianLimit)) = 176
   \<and> padded 8 (payload_size (Response_members GetCartesianLimit)) = 184
   \<and> map (\<lambda>a. padded a (payload_size (Response_members GetCartesianLimit))) [1, 2, 4, 8, 16]
        = [177, 178, 180, 184, 192]"
  by (simp add: payload_size_def padded_def)

text \<open>
  Claim C4, as stated, gives 160 bytes for the results of the response of
  \<open>GetCartesianLimit\<close>. Its 22 doubles alone take 176 bytes, more than 160; with the
  boolean the results take 177 bytes, 184 when padded to a multiple of 8.
\<close>

theorem GetCartesianLimit_Response_not_160:
  "payload_size (Response_members GetCartesianLimit) \<noteq> 160
   \<and> padded 8 (payload_size (Response_members GetCartesianLimit)) \<noteq> 160
   \<and> 160 < payload_size (butlast (Response_members GetCartesianLimit))"
  by (simp add: payload_size_def padded_def)

subsection \<open>Rejection of a start command\<close>

text \<open>
  Claim C5, as stated, has \<open>StartController\<close> answer \<open>kRejected\<close>, a value of that
  command's status enumeration. \<open>StartController\<close> declares no status enumeration: it has
  the inherited one, whose only enumerator is \<open>kSuccess\<close>. The enumerator \<open>kRejected\<close>
  belongs to \<open>StartMotionGenerator::Status\<close>; it is not among the enumerators of the
  status of \<open>StartController\<close>, none of which has its value 4. The request of
  \<open>StartController\<close> has no member, so it carries no mode either.
\<close>

theorem StartController_cannot_reject:
  "Status_enumerators StartController = [Status_CommandBase CommandBase_Status.kSuccess]
   \<and> Status_StartMotionGenerator kRejected \<notin> set (Status_enumerators StartController)
   \<and> static_cast_uint32 (Status_StartMotionGenerator kRejected)
        \<notin> set (map static_cast_uint32 (Status_enumerators StartController))
   \<and> Request_members StartController = []"
  by simp

text \<open>
  Claim C5, amended: for the motion-generator axis, \<open>StartMotionGenerator(mode)\<close> issued
  while that axis is already Active or Starting yields the status \<open>kRejected\<close>, an
  enumerator of \<open>StartMotionGenerator::Status\<close> with the value 4, and the state of the
  session, with the mode of that axis, is unchanged; issued while the axis is Idle and the
  session is not faulted, it succeeds and the axis becomes Active with the mode of the
  request. For the controller axis, \<open>kRejected\<close> cannot be expressed: the status
  enumeration of \<open>StartController\<close> declares the single enumerator \<open>kSuccess = 0\<close>, and
  the request of \<open>StartController\<close> has no member, while that of
  \<open>StartMotionGenerator\<close> has the member \<open>mode\<close>.
\<close>

theorem StartMotionGenerator_rejected_unless_Idle:
  "(motion_generator_axis m = Active \<or> motion_generator_axis m = Starting \<longrightarrow>
      status (fst (start_motion_generator m request)) = kRejected
      \<and> ResponseBase.function' (fst (start_motion_generator m request)) = kStartMotionGenerator
      \<and> snd (start_motion_generator m request) = m
      \<and> motion_generator_axis (snd (start_motion_generator m request)) = motion_generator_axis m
      \<and> motion_generator_mode (session (snd (start_motion_generator m request)))
          = motion_generator_mode (session m))
   \<and> (motion_generator_axis m = Idle \<and> \<not> faulted m \<longrightarrow>
      status (fst (start_motion_generator m request)) = StartMotionGenerator_Status.kSuccess
      \<and> motion_generator_axis (snd (start_motion_generator m request)) = Active
      \<and> motion_generator_mode (session (snd (start_motion_generator m request)))
          = Some (StartMotionGenerator_Request.mode request))
   \<and> Status_StartMotionGenerator kRejected \<in> set (Status_enumerators StartMotionGenerator)
   \<and> static_cast_uint32 (Status_StartMotionGenerator kRejected) = 4
   \<and> Request_members StartMotionGenerator = [(''mode'', T_uint32)]
   \<and> Status_enumerators StartController = [Status_CommandBase CommandBase_Status.kSuccess]
   \<and> map static_cast_uint32 (Status_enumerators StartController) = [0]
   \<and> Request_members StartController = []"
  by (simp add: start_motion_generator_def ResponseBase_def)

theorem StartMotionGenerator_rejected_unless_Idle_witness:
  "motion_generator_axis
     \<lparr>session = initial_SessionState\<lparr>motion_generator_mode := Some MotionGeneratorMode.kJointPosition\<rparr>,
      controller_axis = Idle, motion_generator_axis = Active, faulted = False\<rparr> = Active
   \<and> status (fst (start_motion_generator
        \<lparr>session = initial_SessionState\<lparr>motion_generator_mode := Some MotionGeneratorMode.kJointPosition\<rparr>,
         controller_axis = Idle, motion_generator_axis = Active, faulted = False\<rparr>
        (StartMotionGenerator_Request kCartesianVelocity))) = kRejected
   \<and> motion_generator_mode (session (snd (start_motion_generator
        \<lparr>session = initial_SessionState\<lparr>motion_generator_mode := Some MotionGeneratorMode.kJointPosition\<rparr>,
         controller_axis = Idle, motion_generator_axis = Active, faulted = False\<rparr>
        (StartMotionGenerator_Request kCartesianVelocity))))
       = Some MotionGeneratorMode.kJointPosition
   \<and> status (fst (start_motion_generator
        \<lparr>session = initial_SessionState\<lparr>motion_generator_mode := Some kJointVelocity\<rparr>,
         controller_axis = Idle, motion_generator_axis = Starting, faulted = False\<rparr>
        (StartMotionGenerator_Request kCartesianVelocity))) = kRejected
   \<and> motion_generator_mode (session (snd (start_motion_generator
        \<lparr>session = initial_SessionState\<lparr>motion_generator_mode := Some kJointVelocity\<rparr>,
         controller_axis = Idle, motion_generator_axis = Starting, faulted = False\<rparr>
        (StartMotionGenerator_Request kCartesianVelocity))))
       = Some kJointVelocity
   \<and> status (fst (start_motion_generator
        \<lparr>session = initial_SessionState, controller_axis = Idle,
         motion_generator_axis = Idle, faulted = False\<rparr>
        (StartMotionGenerator_Request kCartesianVelocity))) = StartMotionGenerator_Status.kSuccess
   \<and> motion_generator_mode (session (snd (start_motion_generator
        \<lparr>session = initial_SessionState, controller_axis = Idle,
         motion_generator_axis = Idle, faulted = False\<rparr>
        (StartMotionGenerator_Request kCartesianVelocity))))
       = Some kCartesianVelocity"
proof -
  let ?a = "\<lparr>session = initial_SessionState\<lparr>motion_generator_mode := Some MotionGeneratorMode.kJointPosition\<rparr>,
      controller_axis = Idle, motion_generator_axis = Active, faulted = False\<rparr>"
  let ?s = "\<lparr>session = initial_SessionState\<lparr>motion_generator_mode := Some kJointVelocity\<rparr>,
         controller_axis = Idle, motion_generator_axis = Starting, faulted = False\<rparr>"
  let ?i = "\<lparr>session = initial_SessionState, controller_axis = Idle,
         motion_generator_axis = Idle, faulted = False\<rparr>"
  let ?r = "StartMotionGenerator_Request kCartesianVelocity"
  have m: "StartMotionGenerator_Request.mode ?r = kCartesianVelocity"
    by (simp add: StartMotionGenerator_Request_def)
  show ?thesis
    using StartMotionGenerator_rejected_unless_Idle [of ?a ?r]
      StartMotionGenerator_rejected_unless_Idle [of ?s ?r]
      StartMotionGenerator_rejected_unless_Idle [of ?i ?r] m
    by (simp add: initial_SessionState_def)
qed

subsection \<open>Wire codec\<close>

lemma length_le_bytes [simp]: "length (le_bytes n v) = n"
  by (induction n arbitrary: v) simp_all

lemma le_value_le_bytes: "le_value (le_bytes n v) = v mod 256 ^ n"
proof (induction n arbitrary: v)
  case 0
  then show ?case by simp
next
  case (Suc n)
  have "unat (word_of_nat (v mod 256) :: byte) = v mod 256"
    by (simp add: unat_of_nat)
  then show ?case
    using Suc [of "v div 256"] by (simp add: mod_mult2_eq)
qed

lemma length_encode_uint16 [simp]: "length (encode_uint16 w) = 2"
  by (simp add: encode_uint16_def)

lemma length_encode_uint32 [simp]: "length (encode_uint32 w) = 4"
  by (simp add: encode_uint32_def)

lemma length_encode_double [simp]: "length (encode_double w) = 8"
  by (simp add: encode_double_def)

lemma length_encode_bool [simp]: "length (encode_bool w) = 1"
  by (simp add: encode_bool_def)

lemma decode_encode_uint16 [simp]: "decode_uint16 (encode_uint16 w) = w"
proof -
  have "unat w < 2 ^ 16" using unsigned_less [of w] by simp
  then show ?thesis
    by (simp add: decode_uint16_def encode_uint16_def le_value_le_bytes)
qed

lemma decode_encode_uint32 [simp]: "decode_uint32 (encode_uint32 w) = w"
proof -
  have "unat w < 2 ^ 32" using unsigned_less [of w] by simp
  then show ?thesis
    by (simp add: decode_uint32_def encode_uint32_def le_value_le_bytes)
qed

lemma decode_encode_double [simp]: "decode_double (encode_double w) = w"
proof -
  have "unat w < 2 ^ 64" using unsigned_less [of w] by simp
  then show ?thesis
    by (simp add: decode_double_def encode_double_def le_value_le_bytes)
qed

lemma decode_encode_bool [simp]: "decode_bool (encode_bool b) = b"
  by (simp add: decode_bool_def encode_bool_def)

lemma length_encode_doubles [simp]: "length (encode_doubles ds) = 8 * length ds"
  by (induction ds) (simp_all add: encode_doubles_def)

lemma length_encode_bools [simp]: "length (encode_bools bs) = length bs"
  by (induction bs) (simp_all add: encode_bools_def)

lemma decode_encode_doubles:
  "length ds = n \<Longrightarrow> decode_doubles n (encode_doubles ds @ rest) = ds"
proof (induction ds arbitrary: n)
  case Nil
  then show ?case by simp
next
  case (Cons d ds)
  then obtain m where n: "n = Suc m" and m: "length ds = m" by (cases n) auto
  have e: "encode_doubles (d # ds) = encode_double d @ encode_doubles ds"
    by (simp add: encode_doubles_def)
  show ?case using Cons.IH [OF m] by (simp add: n e)
qed

lemma decode_encode_bools:
  "length bs = n \<Longrightarrow> decode_bools n (encode_bools bs @ rest) = bs"
proof (induction bs arbitrary: n)
  case Nil
  then show ?case by simp
next
  case (Cons b bs)
  then obtain m where n: "n = Suc m" and m: "length bs = m" by (cases n) auto
  have e: "encode_bools (b # bs) = encode_bool b @ encode_bools bs"
    by (simp add: encode_bools_def)
  show ?case using Cons.IH [OF m] by (simp add: n e)
qed

lemma decode_encode_Function [simp]:
  "decode_Function (encode_uint32 (Function_value f)) = Some f"
  by (cases f) (simp_all add: decode_Function_def Function_enumerators_def)

lemma decode_encode_MotionGeneratorMode [simp]:
  "decode_MotionGeneratorMode (encode_uint32 (MotionGeneratorMode_value m)) = Some m"
  by (cases m) (simp_all add: decode_MotionGeneratorMode_def)

lemma decode_encode_ControllerMode [simp]:
  "decode_ControllerMode (encode_uint32 (ControllerMode_value m)) = Some m"
  by (cases m) (simp_all add: decode_ControllerMode_def)

lemma decode_encode_CommandBase_Status [simp]:
  "decode_CommandBase_Status (encode_uint32 (CommandBase_Status_value s)) = Some s"
  by (cases s) (simp_all add: decode_CommandBase_Status_def)

lemma decode_encode_Connect_Status [simp]:
  "decode_Connect_Status (encode_uint32 (Connect_Status_value s)) = Some s"
  by (cases s) (simp_all add: decode_Connect_Status_def)

lemma decode_encode_StartMotionGenerator_Status [simp]:
  "decode_StartMotionGenerator_Status (encode_uint32 (StartMotionGenerator_Status_value s)) = Some s"
  by (cases s) (simp_all add: decode_StartMotionGenerator_Status_def)

lemma decode_encode_GetCartesianLimit_Status [simp]:
  "decode_GetCartesianLimit_Status (encode_uint32 (GetCartesianLimit_Status_value s)) = Some s"
  by (cases s) (simp_all add: decode_GetCartesianLimit_Status_def)


lemma decode_encode_doubles_all:
  "length ds = n \<Longrightarrow> decode_doubles n (encode_doubles ds) = ds"
  using decode_encode_doubles [of ds n "[]"] by simp

lemma decode_encode_bools_all:
  "length bs = n \<Longrightarrow> decode_bools n (encode_bools bs) = bs"
  using decode_encode_bools [of bs n "[]"] by simp

lemmas size_defs = Request_size_def Response_size_def payload_size_def

lemmas codec_simps =
  decode_encode_doubles decode_encode_doubles_all decode_encode_bools decode_encode_bools_all

lemma length_encode_Request:
  "Request_constructed r \<Longrightarrow>
   length (encode_Request r) = Request_size (kFunction (Request_command r))"
  by (cases r) (simp_all add: encode_Request_def size_defs)

lemma decode_encode_Request_matching:
  "Request_constructed r \<Longrightarrow> Request_function r = kFunction (Request_command r) \<Longrightarrow>
   decode_Request (encode_Request r) (kFunction (Request_command r)) = Inr r"
  by (cases r)
     (auto simp add: decode_Request_def encode_Request_def size_defs codec_simps
        simp del: Function_value.simps)

lemma decode_encode_Request:
  "Request_constructed r \<Longrightarrow> Request_command r \<noteq> SetTimeScalingFactor \<Longrightarrow>
   decode_Request (encode_Request r) (kFunction (Request_command r)) = Inr r"
  using decode_encode_Request_matching Request_function_other by blast

lemma length_encode_Response:
  "Response_constructed r \<Longrightarrow>
   length (encode_Response r) = Response_size (kFunction (Response_command r))"
  by (cases r) (simp_all add: encode_Response_def size_defs)

lemma decode_encode_Response_matching:
  "Response_constructed r \<Longrightarrow> Response_function r = kFunction (Response_command r) \<Longrightarrow>
   decode_Response (encode_Response r) (kFunction (Response_command r)) = Inr r"
  by (cases r)
     (auto simp add: decode_Response_def encode_Response_def size_defs codec_simps
        simp del: Function_value.simps)

lemma decode_encode_Response:
  "Response_constructed r \<Longrightarrow>
   decode_Response (encode_Response r) (kFunction (Response_command r)) = Inr r"
  using decode_encode_Response_matching Response_function_all by blast

lemma Function_command_kFunction: "Function_command (kFunction T) = T"
  by (cases T) simp_all

lemma kFunction_Function_command: "kFunction (Function_command f) = f"
  by (cases f) simp_all

lemma GetCartesianLimit_Response_constructed:
  "Response_constructed (Response_GetCartesianLimit (GetCartesianLimit_Response s))"
  by (simp add: GetCartesianLimit_Response_def GetCartesianLimit_Response_with_def
      ResponseBase_def)

text \<open>
  A response frame decoded under the function identifier of another command is a framing
  error.
\<close>

lemma decode_Response_mismatch:
  "decode_Response
     (encode_Response (Response_StopController (ResponseBase StopController s)))
     kStartController = Inl FunctionIdMismatch"
  by (simp add: decode_Response_def encode_Response_def size_defs ResponseBase_def
      del: Function_value.simps)

text \<open>
  Claim C8. For every function identifier and every constructed request or response \<open>x\<close>
  of its command, decoding the encoding of \<open>x\<close> gives \<open>x\<close> back. The lemmas above show
  this for every constructed response and for the constructed requests of the sixteen
  commands other than \<open>SetTimeScalingFactor\<close>, each decoded under the function identifier
  of its command. For the request that the constructor of \<open>SetTimeScalingFactor\<close> builds
  it fails: the frame starts with the function identifier of \<open>SetLoad\<close>, which the
  request carries, so decoding it under \<open>kSetTimeScalingFactor\<close> is a function identifier
  mismatch, decoding it under \<open>kSetLoad\<close> is a malformed length, and under no function
  identifier does decoding give the request back.
\<close>

theorem SetTimeScalingFactor_Request_round_trip_fails:
  "Request_constructed (Request_SetTimeScalingFactor (SetTimeScalingFactor_Request t))
   \<and> take 4 (encode_Request (Request_SetTimeScalingFactor (SetTimeScalingFactor_Request t)))
       = encode_uint32 (Function_value kSetLoad)
   \<and> decode_Request
        (encode_Request (Request_SetTimeScalingFactor (SetTimeScalingFactor_Request t)))
        kSetTimeScalingFactor
       = Inl FunctionIdMismatch
   \<and> decode_Request
        (encode_Request (Request_SetTimeScalingFactor (SetTimeScalingFactor_Request t)))
        kSetLoad
       = Inl MalformedLength
   \<and> decode_Request
        (encode_Request (Request_SetTimeScalingFactor (SetTimeScalingFactor_Request t)))
        fid
       \<noteq> Inr (Request_SetTimeScalingFactor (SetTimeScalingFactor_Request t))"
proof -
  let ?x = "Request_SetTimeScalingFactor (SetTimeScalingFactor_Request t)"
  have c: "Request_constructed ?x"
    by (simp add: SetTimeScalingFactor_Request_def)
  have h: "take 4 (encode_Request ?x) = encode_uint32 (Function_value kSetLoad)"
    by (simp add: encode_Request_def SetTimeScalingFactor_Request_def RequestBase_def
        del: Function_value.simps)
  have l: "length (encode_Request ?x) = 12"
    by (simp add: encode_Request_def)
  have a: "decode_Request (encode_Request ?x) kSetTimeScalingFactor = Inl FunctionIdMismatch"
    using h l by (simp add: decode_Request_def size_defs del: Function_value.simps)
  have b: "decode_Request (encode_Request ?x) fid = Inl MalformedLength"
    if "fid \<noteq> kSetTimeScalingFactor" for fid
    using that l by (cases fid) (simp_all add: decode_Request_def size_defs)
  have d: "decode_Request (encode_Request ?x) fid \<noteq> Inr ?x"
    using a b [of fid] by (cases "fid = kSetTimeScalingFactor") simp_all
  show ?thesis
    using c h a b [of kSetLoad] d by simp
qed

subsection \<open>Version negotiation\<close>

text \<open>
  Claim C6. The negotiation accepts exactly when the client's version equals the server's.
  A connect request whose version differs from the server's is answered with the status
  \<open>kIncompatibleLibraryVersion\<close> and no session state is created; one whose version is
  the server's is answered with \<open>kSuccess\<close> and the session state is created.
\<close>

theorem connect_version_mismatch:
  "((negotiate clientVersion serverVersion = Accepted) = (clientVersion = serverVersion))
   \<and> (Connect_Request.version request \<noteq> serverVersion \<longrightarrow>
        status (fst (connect serverVersion request)) = kIncompatibleLibraryVersion
        \<and> snd (connect serverVersion request) = None)
   \<and> (Connect_Request.version request = serverVersion \<longrightarrow>
        status (fst (connect serverVersion request)) = Connect_Status.kSuccess
        \<and> snd (connect serverVersion request) = Some initial_SessionState)"
  by (simp add: negotiate_def connect_def Connect_Response_def ResponseBase_def)

theorem connect_version_mismatch_witness:
  "Connect_Request.version (Connect_Request 1337) \<noteq> 2
   \<and> status (fst (connect 2 (Connect_Request 1337))) = kIncompatibleLibraryVersion
   \<and> snd (connect 2 (Connect_Request 1337)) = None
   \<and> Connect_Request.version (Connect_Request 1337) = 1
   \<and> status (fst (connect 1 (Connect_Request 1337))) = Connect_Status.kSuccess
   \<and> snd (connect 1 (Connect_Request 1337)) = Some initial_SessionState"
proof -
  have v: "Connect_Request.version (Connect_Request 1337) = 1"
    by (simp add: Connect_Request_def kVersion_def)
  show ?thesis
    using connect_version_mismatch [of 1 2 "Connect_Request 1337"]
      connect_version_mismatch [of 1 1 "Connect_Request 1337"] v
    by simp
qed

end
